theory Spec2Isabelle
  imports Main "HOL-Library.Word"
begin

section \<open>Machine types\<close>

type_synonym uint8_t = "8 word"
type_synonym uint16_t = "16 word"
type_synonym uint32_t = "32 word"

section \<open>buttons.h, buttons.c: debouncing and gesture detection\<close>

text \<open>
  \<^verbatim>\<open>ButtonState_t\<close> of buttons.h, field by field. Both counters are \<^verbatim>\<open>uint16_t\<close> in the
  source, so they are 16-bit words here and \<open>+\<close> wraps as the C arithmetic does.
\<close>

record ButtonState_t =
  current_state :: bool
  last_state :: bool
  raw_state :: bool
  debounce_counter :: uint16_t
  press_duration :: uint16_t
  click_pending :: bool
  long_press_sent :: bool

definition DEBOUNCE_COUNT :: uint16_t where
  "DEBOUNCE_COUNT = 5"

definition LONG_PRESS_THRESHOLD_MS :: uint16_t where
  "LONG_PRESS_THRESHOLD_MS = 1000"

text \<open>
  The body of the branch \<^verbatim>\<open>if (state->debounce_counter >= DEBOUNCE_COUNT)\<close> of
  \<^verbatim>\<open>UpdateButtonState\<close>: the state change is confirmed.
\<close>

definition confirm_change :: "ButtonState_t \<Rightarrow> bool \<Rightarrow> ButtonState_t" where
  "confirm_change state raw_reading =
     (let s = state\<lparr>last_state := current_state state,
                     current_state := raw_reading,
                     debounce_counter := 0\<rparr>
      in if current_state s
         then s\<lparr>press_duration := 0, long_press_sent := False\<rparr>
         else (if \<not> long_press_sent s then s\<lparr>click_pending := True\<rparr> else s)
                \<lparr>press_duration := 0\<rparr>)"

text \<open>
  \<^verbatim>\<open>static void UpdateButtonState(ButtonState_t *state, bool raw_reading, uint16_t elapsed_ms)\<close>.
  The mutation through the pointer is explicit state passing: the updated structure is
  the result.
\<close>

definition UpdateButtonState :: "ButtonState_t \<Rightarrow> bool \<Rightarrow> uint16_t \<Rightarrow> ButtonState_t" where
  "UpdateButtonState state raw_reading elapsed_ms =
     (let s1 = state\<lparr>raw_state := raw_reading\<rparr>;
          s2 = (if raw_reading = current_state s1
                then s1\<lparr>debounce_counter := 0\<rparr>
                else (let s3 = s1\<lparr>debounce_counter := debounce_counter s1 + 1\<rparr>
                      in if debounce_counter s3 \<ge> DEBOUNCE_COUNT
                         then confirm_change s3 raw_reading
                         else s3))
      in if current_state s2
         then s2\<lparr>press_duration := press_duration s2 + elapsed_ms\<rparr>
         else s2)"

text \<open>
  \<^verbatim>\<open>static bool CheckLongPress(ButtonState_t *state)\<close>: the returned flag and the
  updated structure.
\<close>

definition CheckLongPress :: "ButtonState_t \<Rightarrow> bool \<times> ButtonState_t" where
  "CheckLongPress state =
     (if current_state state
         \<and> press_duration state \<ge> LONG_PRESS_THRESHOLD_MS
         \<and> \<not> long_press_sent state
      then (True, state\<lparr>long_press_sent := True, click_pending := False\<rparr>)
      else (False, state))"

text \<open>\<^verbatim>\<open>ButtonId_t\<close>, \<^verbatim>\<open>ButtonEventType_t\<close> and \<^verbatim>\<open>ButtonEvent_t\<close> of app.h.\<close>

datatype ButtonId_t = BUTTON_NONE | BUTTON_PB1 | BUTTON_PB2 | BUTTON_PB3 | BUTTON_PB2_AND_PB3

datatype ButtonEventType_t =
  EVENT_NONE | EVENT_CLICK | EVENT_LONG_PRESS | EVENT_PRESSED | EVENT_RELEASED

record ButtonEvent_t =
  button :: ButtonId_t
  event :: ButtonEventType_t

text \<open>The static variables of buttons.c, gathered in one record.\<close>

record buttons_t =
  pb1_state :: ButtonState_t
  pb2_state :: ButtonState_t
  pb3_state :: ButtonState_t
  pb2_pb3_combo_click_pending :: bool
  pb2_pb3_combo_long_press_sent :: bool
  pb2_pb3_combo_duration :: uint16_t
  pb2_was_pressed_in_combo :: bool
  pb3_was_pressed_in_combo :: bool

text \<open>
  The initialisation of one \<^verbatim>\<open>ButtonState_t\<close> in \<^verbatim>\<open>Buttons_Init\<close>, from the level read
  at the pin, and \<^verbatim>\<open>Buttons_Init\<close> itself; the three pin levels are arguments.
\<close>

definition init_button :: "bool \<Rightarrow> ButtonState_t" where
  "init_button pin =
     \<lparr>current_state = pin, last_state = pin, raw_state = pin, debounce_counter = 0,
      press_duration = 0, click_pending = False, long_press_sent = False\<rparr>"

definition Buttons_Init :: "bool \<Rightarrow> bool \<Rightarrow> bool \<Rightarrow> buttons_t" where
  "Buttons_Init pb1_read pb2_read pb3_read =
     \<lparr>pb1_state = init_button pb1_read,
      pb2_state = init_button pb2_read,
      pb3_state = init_button pb3_read,
      pb2_pb3_combo_click_pending = False,
      pb2_pb3_combo_long_press_sent = False,
      pb2_pb3_combo_duration = 0,
      pb2_was_pressed_in_combo = False,
      pb3_was_pressed_in_combo = False\<rparr>"

text \<open>
  \<^verbatim>\<open>Buttons_Update\<close>, in the order of the source. \<open>combo_track\<close> is the block
  "Track if buttons are pressed" with the accumulation of the combo duration,
  \<open>combo_long_press\<close> the block "Check for combo when BOTH buttons are currently
  pressed", \<open>combo_release\<close> the block "Check when BOTH buttons are released".
\<close>

definition combo_track :: "uint16_t \<Rightarrow> buttons_t \<Rightarrow> buttons_t" where
  "combo_track elapsed_ms b =
     (let b1 = (if current_state (pb2_state b) then b\<lparr>pb2_was_pressed_in_combo := True\<rparr> else b);
          b2 = (if current_state (pb3_state b1) then b1\<lparr>pb3_was_pressed_in_combo := True\<rparr> else b1)
      in if current_state (pb2_state b2) \<or> current_state (pb3_state b2)
         then b2\<lparr>pb2_pb3_combo_duration := pb2_pb3_combo_duration b2 + elapsed_ms\<rparr>
         else b2)"

definition cancel_individual_clicks :: "buttons_t \<Rightarrow> buttons_t" where
  "cancel_individual_clicks b =
     b\<lparr>pb2_state := (pb2_state b)\<lparr>click_pending := False\<rparr>,
       pb3_state := (pb3_state b)\<lparr>click_pending := False\<rparr>\<rparr>"

definition combo_long_press :: "buttons_t \<Rightarrow> buttons_t" where
  "combo_long_press b =
     (if current_state (pb2_state b) \<and> current_state (pb3_state b)
      then (if pb2_pb3_combo_duration b \<ge> LONG_PRESS_THRESHOLD_MS
               \<and> \<not> pb2_pb3_combo_long_press_sent b
            then cancel_individual_clicks (b\<lparr>pb2_pb3_combo_long_press_sent := True\<rparr>)
            else b)
      else b)"

definition combo_release :: "buttons_t \<Rightarrow> buttons_t" where
  "combo_release b =
     (if \<not> current_state (pb2_state b) \<and> \<not> current_state (pb3_state b)
      then (let b1 =
                  (if pb2_was_pressed_in_combo b \<and> pb3_was_pressed_in_combo b
                   then (if pb2_pb3_combo_duration b > 0
                            \<and> pb2_pb3_combo_duration b < LONG_PRESS_THRESHOLD_MS
                            \<and> \<not> pb2_pb3_combo_long_press_sent b
                         then cancel_individual_clicks (b\<lparr>pb2_pb3_combo_click_pending := True\<rparr>)
                         else b)
                   else b)
            in b1\<lparr>pb2_pb3_combo_duration := 0,
                  pb2_pb3_combo_long_press_sent := False,
                  pb2_was_pressed_in_combo := False,
                  pb3_was_pressed_in_combo := False\<rparr>)
      else b)"

definition update_all_buttons :: "uint16_t \<Rightarrow> bool \<Rightarrow> bool \<Rightarrow> bool \<Rightarrow> buttons_t \<Rightarrow> buttons_t" where
  "update_all_buttons elapsed_ms pb1_read pb2_read pb3_read b =
     b\<lparr>pb1_state := UpdateButtonState (pb1_state b) pb1_read elapsed_ms,
       pb2_state := UpdateButtonState (pb2_state b) pb2_read elapsed_ms,
       pb3_state := UpdateButtonState (pb3_state b) pb3_read elapsed_ms\<rparr>"

definition Buttons_Update :: "uint16_t \<Rightarrow> bool \<Rightarrow> bool \<Rightarrow> bool \<Rightarrow> buttons_t \<Rightarrow> buttons_t" where
  "Buttons_Update elapsed_ms pb1_read pb2_read pb3_read b =
     combo_release (combo_long_press (combo_track elapsed_ms
       (update_all_buttons elapsed_ms pb1_read pb2_read pb3_read b)))"

text \<open>The click checks: the returned flag and the state with the flag cleared.\<close>

definition Buttons_IsPB1Clicked :: "buttons_t \<Rightarrow> bool \<times> buttons_t" where
  "Buttons_IsPB1Clicked b =
     (if click_pending (pb1_state b)
      then (True, b\<lparr>pb1_state := (pb1_state b)\<lparr>click_pending := False\<rparr>\<rparr>)
      else (False, b))"

definition Buttons_IsPB2Clicked :: "buttons_t \<Rightarrow> bool \<times> buttons_t" where
  "Buttons_IsPB2Clicked b =
     (if click_pending (pb2_state b)
      then (True, b\<lparr>pb2_state := (pb2_state b)\<lparr>click_pending := False\<rparr>\<rparr>)
      else (False, b))"

definition Buttons_IsPB3Clicked :: "buttons_t \<Rightarrow> bool \<times> buttons_t" where
  "Buttons_IsPB3Clicked b =
     (if click_pending (pb3_state b)
      then (True, b\<lparr>pb3_state := (pb3_state b)\<lparr>click_pending := False\<rparr>\<rparr>)
      else (False, b))"

definition Buttons_IsPB2AndPB3Click :: "buttons_t \<Rightarrow> bool \<times> buttons_t" where
  "Buttons_IsPB2AndPB3Click b =
     (if pb2_pb3_combo_click_pending b
      then (True, b\<lparr>pb2_pb3_combo_click_pending := False\<rparr>)
      else (False, b))"

definition Buttons_IsPB2AndPB3LongPress :: "buttons_t \<Rightarrow> bool \<times> buttons_t" where
  "Buttons_IsPB2AndPB3LongPress b =
     (if current_state (pb2_state b) \<and> current_state (pb3_state b)
         \<and> pb2_pb3_combo_duration b \<ge> LONG_PRESS_THRESHOLD_MS
         \<and> \<not> pb2_pb3_combo_long_press_sent b
      then (True, b\<lparr>pb2_pb3_combo_long_press_sent := True\<rparr>)
      else (False, b))"

text \<open>
  Modelled from the spec: \<^verbatim>\<open>xQueueSend(xButtonQueue, &event, 0)\<close>. The queue is
  FreeRTOS code that is not part of the sources at hand; the event channel is "bounded,
  ordered", its send "non-blocking, capacity-bounded", and "a full channel silently drops
  the event". The capacity is \<^verbatim>\<open>BUTTON_QUEUE_SIZE\<close> of app.h; the flag is
  \<^verbatim>\<open>result == pdPASS\<close>.
\<close>

definition BUTTON_QUEUE_SIZE :: nat where
  "BUTTON_QUEUE_SIZE = 10"

definition xQueueSend :: "ButtonEvent_t list \<Rightarrow> ButtonEvent_t \<Rightarrow> bool \<times> ButtonEvent_t list" where
  "xQueueSend q e = (if length q < BUTTON_QUEUE_SIZE then (True, q @ [e]) else (False, q))"

text \<open>
  \<^verbatim>\<open>Buttons_SendPendingEvents\<close>: the returned flag, the module state and the queue. Each
  \<^verbatim>\<open>if\<close> of the source returns, so the chain is nested in the same order.
\<close>

definition Buttons_SendPendingEvents ::
    "buttons_t \<Rightarrow> ButtonEvent_t list \<Rightarrow> bool \<times> buttons_t \<times> ButtonEvent_t list" where
  "Buttons_SendPendingEvents b q =
     (if pb2_pb3_combo_click_pending b
      then (let b1 = b\<lparr>pb2_pb3_combo_click_pending := False\<rparr>;
                (result, q1) = xQueueSend q \<lparr>button = BUTTON_PB2_AND_PB3, event = EVENT_CLICK\<rparr>
            in (result, b1, q1))
      else
        (let (combo_long, b1) = Buttons_IsPB2AndPB3LongPress b
         in if combo_long
            then (let (result, q1) =
                        xQueueSend q \<lparr>button = BUTTON_PB2_AND_PB3, event = EVENT_LONG_PRESS\<rparr>
                  in (result, b1, q1))
            else if click_pending (pb1_state b1)
            then (let b2 = b1\<lparr>pb1_state := (pb1_state b1)\<lparr>click_pending := False\<rparr>\<rparr>;
                      (result, q1) = xQueueSend q \<lparr>button = BUTTON_PB1, event = EVENT_CLICK\<rparr>
                  in (result, b2, q1))
            else
              (let (pb3_long, st3) = CheckLongPress (pb3_state b1);
                   b2 = b1\<lparr>pb3_state := st3\<rparr>
               in if pb3_long
                  then (let (result, q1) =
                              xQueueSend q \<lparr>button = BUTTON_PB3, event = EVENT_LONG_PRESS\<rparr>
                        in (result, b2, q1))
                  else if click_pending (pb3_state b2)
                  then (let b3 = b2\<lparr>pb3_state := (pb3_state b2)\<lparr>click_pending := False\<rparr>\<rparr>;
                            (result, q1) = xQueueSend q \<lparr>button = BUTTON_PB3, event = EVENT_CLICK\<rparr>
                        in (result, b3, q1))
                  else if click_pending (pb2_state b2)
                  then (let b3 = b2\<lparr>pb2_state := (pb2_state b2)\<lparr>click_pending := False\<rparr>\<rparr>;
                            (result, q1) = xQueueSend q \<lparr>button = BUTTON_PB2, event = EVENT_CLICK\<rparr>
                        in (result, b3, q1))
                  else (False, b2, q))))"

text \<open>
  One iteration of the loop of \<^verbatim>\<open>vButtonTask\<close> (main.c): \<^verbatim>\<open>Buttons_Update(10)\<close>, then
  \<^verbatim>\<open>Buttons_SendPendingEvents()\<close>, whose result the task ignores. The pin levels of the
  iteration are the first argument; \<open>vButtonTask_loop\<close> runs one iteration per element.
\<close>

definition vButtonTask_cycle ::
    "bool \<times> bool \<times> bool \<Rightarrow> buttons_t \<times> ButtonEvent_t list \<Rightarrow> buttons_t \<times> ButtonEvent_t list" where
  "vButtonTask_cycle pins bq =
     (case pins of (pb1_read, pb2_read, pb3_read) \<Rightarrow>
        (case bq of (b, q) \<Rightarrow>
           (let b1 = Buttons_Update 10 pb1_read pb2_read pb3_read b;
                (sent, b2, q1) = Buttons_SendPendingEvents b1 q
            in (b2, q1))))"

fun vButtonTask_loop ::
    "(bool \<times> bool \<times> bool) list \<Rightarrow> buttons_t \<times> ButtonEvent_t list \<Rightarrow> buttons_t \<times> ButtonEvent_t list" where
  "vButtonTask_loop [] bq = bq"
| "vButtonTask_loop (pins # rest) bq = vButtonTask_loop rest (vButtonTask_cycle pins bq)"

text \<open>
  A run of \<^verbatim>\<open>UpdateButtonState\<close> on one button over successive polling ticks, one raw
  sample per tick.
\<close>

fun UpdateButtonState_run :: "ButtonState_t \<Rightarrow> uint16_t \<Rightarrow> bool list \<Rightarrow> ButtonState_t" where
  "UpdateButtonState_run state elapsed_ms [] = state"
| "UpdateButtonState_run state elapsed_ms (raw # raws) =
     UpdateButtonState_run (UpdateButtonState state raw elapsed_ms) elapsed_ms raws"

text \<open>
  The longest run of consecutive samples that differ from the level \<open>d\<close>, where a run of
  length \<open>k\<close> is in progress when the list starts. This is the words of the property
  ("a raw reading that differs for fewer than 5 consecutive ticks"), not code.
\<close>

fun longest_differing_run :: "bool \<Rightarrow> nat \<Rightarrow> bool list \<Rightarrow> nat" where
  "longest_differing_run d k [] = k"
| "longest_differing_run d k (raw # raws) =
     (if raw = d then max k (longest_differing_run d 0 raws)
      else longest_differing_run d (Suc k) raws)"

text \<open>
  The events that are ready for delivery in a module state, listed in the priority order
  of the property: combo click, combo long press, PB1 click, PB3 long press, PB3 click,
  PB2 click. This list follows the words of the property, not the code; a long press is
  ready under the condition that the long-press check of the source tests.
\<close>

definition long_press_ready :: "ButtonState_t \<Rightarrow> bool" where
  "long_press_ready state =
     (current_state state \<and> press_duration state \<ge> LONG_PRESS_THRESHOLD_MS
      \<and> \<not> long_press_sent state)"

definition combo_long_press_ready :: "buttons_t \<Rightarrow> bool" where
  "combo_long_press_ready b =
     (current_state (pb2_state b) \<and> current_state (pb3_state b)
      \<and> pb2_pb3_combo_duration b \<ge> LONG_PRESS_THRESHOLD_MS
      \<and> \<not> pb2_pb3_combo_long_press_sent b)"

definition pending_by_priority :: "buttons_t \<Rightarrow> ButtonEvent_t list" where
  "pending_by_priority b =
     (if pb2_pb3_combo_click_pending b
      then [\<lparr>button = BUTTON_PB2_AND_PB3, event = EVENT_CLICK\<rparr>] else [])
     @ (if combo_long_press_ready b
        then [\<lparr>button = BUTTON_PB2_AND_PB3, event = EVENT_LONG_PRESS\<rparr>] else [])
     @ (if click_pending (pb1_state b)
        then [\<lparr>button = BUTTON_PB1, event = EVENT_CLICK\<rparr>] else [])
     @ (if long_press_ready (pb3_state b)
        then [\<lparr>button = BUTTON_PB3, event = EVENT_LONG_PRESS\<rparr>] else [])
     @ (if click_pending (pb3_state b)
        then [\<lparr>button = BUTTON_PB3, event = EVENT_CLICK\<rparr>] else [])
     @ (if click_pending (pb2_state b)
        then [\<lparr>button = BUTTON_PB2, event = EVENT_CLICK\<rparr>] else [])"

text \<open>
  Concrete module states for the examples: a released button with a click pending, a
  button held for \<open>d\<close> milliseconds, and module states built from them.
\<close>

definition clicked_button :: ButtonState_t where
  "clicked_button = (init_button False)\<lparr>click_pending := True\<rparr>"

definition held_button :: "uint16_t \<Rightarrow> ButtonState_t" where
  "held_button d = (init_button True)\<lparr>last_state := False, press_duration := d\<rparr>"

definition all_clicks_pending :: buttons_t where
  "all_clicks_pending =
     (Buttons_Init False False False)
       \<lparr>pb1_state := clicked_button, pb2_state := clicked_button, pb3_state := clicked_button,
        pb2_pb3_combo_click_pending := True\<rparr>"

definition single_clicks_pending :: buttons_t where
  "single_clicks_pending = all_clicks_pending\<lparr>pb2_pb3_combo_click_pending := False\<rparr>"

definition releasing_button :: "uint16_t \<Rightarrow> ButtonState_t" where
  "releasing_button d = (held_button d)\<lparr>raw_state := False, debounce_counter := 4\<rparr>"

definition combo_about_to_release :: buttons_t where
  "combo_about_to_release =
     (Buttons_Init False True True)
       \<lparr>pb2_state := releasing_button 340, pb3_state := releasing_button 340,
        pb2_pb3_combo_duration := 340,
        pb2_was_pressed_in_combo := True, pb3_was_pressed_in_combo := True\<rparr>"

definition both_held :: "uint16_t \<Rightarrow> buttons_t" where
  "both_held d =
     (Buttons_Init False True True)
       \<lparr>pb2_state := held_button d, pb3_state := held_button d,
        pb2_pb3_combo_duration := d,
        pb2_was_pressed_in_combo := True, pb3_was_pressed_in_combo := True\<rparr>"

text \<open>
  The condition of the property for a combo click at the tick where both buttons are
  released: both were seen pressed in the window, the accumulated duration is strictly
  between 0 and the long-press threshold, and no combo long press was flagged.
\<close>

definition combo_click_condition :: "buttons_t \<Rightarrow> bool" where
  "combo_click_condition b =
     (pb2_was_pressed_in_combo b \<and> pb3_was_pressed_in_combo b
      \<and> 0 < pb2_pb3_combo_duration b \<and> pb2_pb3_combo_duration b < LONG_PRESS_THRESHOLD_MS
      \<and> \<not> pb2_pb3_combo_long_press_sent b)"

definition combo_long_press_event :: ButtonEvent_t where
  "combo_long_press_event = \<lparr>button = BUTTON_PB2_AND_PB3, event = EVENT_LONG_PRESS\<rparr>"

section \<open>pwm.c: the software PWM\<close>

text \<open>
  The static variables of pwm.c, with the two pieces of hardware the module drives: the
  level of LED2 and the run bit of Timer2.
\<close>

record pwm_t =
  pwm_duty_cycle :: uint8_t
  pwm_counter :: uint8_t
  pwm_output_enabled :: bool
  pulse_phase :: uint16_t
  led2_lat :: bool
  timer2_on :: bool

definition PWM_RESOLUTION :: uint8_t where
  "PWM_RESOLUTION = 100"

definition sine_table :: "uint8_t list" where
  "sine_table = [0, 5, 20, 39, 59, 78, 91, 98, 100, 98, 91, 78, 59, 39, 20, 5]"

text \<open>The values of the static initialisers, before \<^verbatim>\<open>PWM_Init\<close> runs.\<close>

definition pwm_startup :: pwm_t where
  "pwm_startup =
     \<lparr>pwm_duty_cycle = 0, pwm_counter = 0, pwm_output_enabled = True, pulse_phase = 0,
      led2_lat = False, timer2_on = False\<rparr>"

definition T2Interrupt :: "pwm_t \<Rightarrow> pwm_t" where
  "T2Interrupt p =
     (let p1 = p\<lparr>pwm_counter := pwm_counter p + 1\<rparr>;
          p2 = (if pwm_counter p1 \<ge> PWM_RESOLUTION then p1\<lparr>pwm_counter := 0\<rparr> else p1)
      in if pwm_output_enabled p2 \<and> pwm_counter p2 < pwm_duty_cycle p2
         then p2\<lparr>led2_lat := True\<rparr>
         else p2\<lparr>led2_lat := False\<rparr>)"

definition PWM_Init :: "pwm_t \<Rightarrow> pwm_t" where
  "PWM_Init p =
     p\<lparr>led2_lat := False, timer2_on := False,
       pwm_duty_cycle := 0, pwm_counter := 0, pwm_output_enabled := True\<rparr>"

definition PWM_Start :: "pwm_t \<Rightarrow> pwm_t" where
  "PWM_Start p = p\<lparr>pwm_counter := 0, timer2_on := True\<rparr>"

definition PWM_Stop :: "pwm_t \<Rightarrow> pwm_t" where
  "PWM_Stop p = p\<lparr>timer2_on := False, led2_lat := False\<rparr>"

definition PWM_SetDutyCycle :: "uint8_t \<Rightarrow> pwm_t \<Rightarrow> pwm_t" where
  "PWM_SetDutyCycle duty_percent p =
     (let duty_percent = (if duty_percent > 100 then 100 else duty_percent)
      in p\<lparr>pwm_duty_cycle := duty_percent\<rparr>)"

definition PWM_GetDutyCycle :: "pwm_t \<Rightarrow> uint8_t" where
  "PWM_GetDutyCycle p = pwm_duty_cycle p"

definition PWM_SetOutputEnabled :: "bool \<Rightarrow> pwm_t \<Rightarrow> pwm_t" where
  "PWM_SetOutputEnabled enabled p =
     (let p1 = p\<lparr>pwm_output_enabled := enabled\<rparr>
      in if \<not> enabled then p1\<lparr>led2_lat := False\<rparr> else p1)"

text \<open>
  \<^verbatim>\<open>PWM_UpdatePulse\<close>. The increment is computed in 32 bits and cut to 16, the phase
  wraps in 16 bits, and the table index is the top four bits of the phase. The division
  by \<^verbatim>\<open>period_ms\<close> is unguarded in the source: with \<^verbatim>\<open>period_ms\<close> = 0 the result is
  \<open>None\<close> (a division by zero, which is no value in C).
\<close>

definition PWM_UpdatePulse :: "uint16_t \<Rightarrow> uint16_t \<Rightarrow> pwm_t \<Rightarrow> pwm_t option" where
  "PWM_UpdatePulse elapsed_ms period_ms p =
     (if period_ms = 0 then None
      else
        (let phase_increment = ((ucast elapsed_ms :: uint32_t) * 65536) div ucast period_ms;
             phase = pulse_phase p + (ucast phase_increment :: uint16_t);
             table_index = (ucast (drop_bit 12 phase) :: uint8_t)
         in Some (p\<lparr>pulse_phase := phase,
                    pwm_duty_cycle := sine_table ! unat table_index\<rparr>)))"

definition PWM_ResetPulse :: "pwm_t \<Rightarrow> pwm_t" where
  "PWM_ResetPulse p = p\<lparr>pulse_phase := 0, pwm_duty_cycle := sine_table ! 0\<rparr>"

text \<open>
  The entry points of the module as operations, and a run of them in any order; the run
  stops with \<open>None\<close> at a division by zero.
\<close>

datatype pwm_op =
  Op_Init | Op_Start | Op_Stop | Op_SetDutyCycle uint8_t | Op_SetOutputEnabled bool
  | Op_UpdatePulse uint16_t uint16_t | Op_ResetPulse | Op_T2Interrupt

fun pwm_apply :: "pwm_op \<Rightarrow> pwm_t \<Rightarrow> pwm_t option" where
  "pwm_apply Op_Init p = Some (PWM_Init p)"
| "pwm_apply Op_Start p = Some (PWM_Start p)"
| "pwm_apply Op_Stop p = Some (PWM_Stop p)"
| "pwm_apply (Op_SetDutyCycle d) p = Some (PWM_SetDutyCycle d p)"
| "pwm_apply (Op_SetOutputEnabled e) p = Some (PWM_SetOutputEnabled e p)"
| "pwm_apply (Op_UpdatePulse elapsed_ms period_ms) p = PWM_UpdatePulse elapsed_ms period_ms p"
| "pwm_apply Op_ResetPulse p = Some (PWM_ResetPulse p)"
| "pwm_apply Op_T2Interrupt p = Some (T2Interrupt p)"

fun pwm_run :: "pwm_op list \<Rightarrow> pwm_t \<Rightarrow> pwm_t option" where
  "pwm_run [] p = Some p"
| "pwm_run (x # xs) p = (case pwm_apply x p of None \<Rightarrow> None | Some p' \<Rightarrow> pwm_run xs p')"

text \<open>The property of the duty cycle, in words: a percentage.\<close>

definition duty_ok :: "pwm_t \<Rightarrow> bool" where
  "duty_ok p = (pwm_duty_cycle p \<le> 100)"

section \<open>app.h, main.c: the application tasks\<close>

datatype SystemState_t =
  STATE_WAITING | STATE_TIME_INPUT | STATE_READY | STATE_COUNTDOWN | STATE_PAUSED
  | STATE_COMPLETED

datatype UartCmdType_t =
  UART_CMD_NONE | UART_CMD_CHAR | UART_CMD_ENTER | UART_CMD_BACKSPACE | UART_CMD_TOGGLE_INFO
  | UART_CMD_TOGGLE_BLINK

record UartCmd_t =
  type :: UartCmdType_t
  character :: char

text \<open>
  The globals of main.c that the tasks share, with the button queue, the characters
  handed to UART2 (one entry per call of the transmit routines) and the hardware the
  countdown task drives.
\<close>

record app_t =
  g_SystemState :: SystemState_t
  g_CountdownSeconds :: uint16_t
  xButtonQueue :: "ButtonEvent_t list"
  uart_tx :: "string list"
  pwm :: pwm_t
  led1_lat :: bool

text \<open>
  Every \<^verbatim>\<open>xSemaphoreTake(mutex, pdMS_TO_TICKS(100))\<close> of main.c either returns
  \<^verbatim>\<open>pdTRUE\<close> or times out, and the source skips the guarded statement on a timeout. The
  scheduler is not modelled: whether each of the three mutexes can be taken is an
  argument of the tasks.
\<close>

record mutexes_t =
  xUartMutex_ok :: bool
  xStateMutex_ok :: bool
  xCountdownMutex_ok :: bool

definition all_mutexes_free :: mutexes_t where
  "all_mutexes_free = \<lparr>xUartMutex_ok = True, xStateMutex_ok = True, xCountdownMutex_ok = True\<rparr>"

definition crlf :: string where
  "crlf = [CHR 0x0D, CHR 0x0A]"

definition SafeDisp2String :: "mutexes_t \<Rightarrow> string \<Rightarrow> app_t \<Rightarrow> app_t" where
  "SafeDisp2String m str a = (if xUartMutex_ok m then a\<lparr>uart_tx := uart_tx a @ [str]\<rparr> else a)"

definition XmitUART2 :: "char \<Rightarrow> app_t \<Rightarrow> app_t" where
  "XmitUART2 c a = a\<lparr>uart_tx := uart_tx a @ [[c]]\<rparr>"

definition set_SystemState :: "mutexes_t \<Rightarrow> SystemState_t \<Rightarrow> app_t \<Rightarrow> app_t" where
  "set_SystemState m s a = (if xStateMutex_ok m then a\<lparr>g_SystemState := s\<rparr> else a)"

subsection \<open>The UART receive interrupt and the time input task\<close>

text \<open>\<^verbatim>\<open>_U2RXInterrupt\<close>: the command built from the received character.\<close>

definition U2RXInterrupt :: "char \<Rightarrow> UartCmd_t" where
  "U2RXInterrupt received =
     (if received = CHR 0x0D \<or> received = CHR 0x0A
      then \<lparr>type = UART_CMD_ENTER, character = received\<rparr>
      else if received = CHR 0x08 \<or> received = CHR 0x7F
      then \<lparr>type = UART_CMD_BACKSPACE, character = received\<rparr>
      else \<lparr>type = UART_CMD_CHAR, character = received\<rparr>)"

text \<open>
  The locals of \<^verbatim>\<open>vTimeInputTask\<close> that live across the input loop. \<^verbatim>\<open>input_buffer\<close> is
  the array of 16 characters; a C string in it ends at the first NUL.
\<close>

record input_t =
  input_buffer :: "char list"
  input_index :: nat
  got_valid_time :: bool

definition NUL :: char where
  "NUL = CHR 0x00"

definition c_str :: "char list \<Rightarrow> string" where
  "c_str buf = takeWhile (\<lambda>c. c \<noteq> NUL) buf"

text \<open>\<^verbatim>\<open>strchr(s, c)\<close> for a character other than NUL: the offset of the first \<open>c\<close> in the
  string, or \<open>None\<close> for the null pointer.\<close>

definition strchr :: "char list \<Rightarrow> char \<Rightarrow> nat option" where
  "strchr buf c =
     (if c \<in> set (c_str buf) then Some (length (takeWhile (\<lambda>x. x \<noteq> c) (c_str buf))) else None)"

definition is_digit :: "char \<Rightarrow> bool" where
  "is_digit c = (of_char (CHR ''0'') \<le> (of_char c :: nat) \<and> (of_char c :: nat) \<le> of_char (CHR ''9''))"

text \<open>
  \<^verbatim>\<open>atoi\<close> of the C library, on the strings the task passes to it: the buffer holds only
  digits, colons and NUL, so there is no white space and no sign to skip, and the value is
  the one of the leading digits (0 when there are none). The result is an \<^verbatim>\<open>int\<close>, 16 bits
  wide on the PIC24, and the task assigns it to a \<^verbatim>\<open>uint16_t\<close>: the library accumulates
  \<^verbatim>\<open>n = n * 10 + digit\<close> in \<^verbatim>\<open>int\<close>, which wraps around on this machine, and the
  assignment keeps the 16 bits. So the value that reaches \<^verbatim>\<open>minutes\<close> and \<^verbatim>\<open>seconds\<close> is the
  number written, modulo 65536; the program carries on with it whatever the number was.
\<close>

fun digits_value :: "uint16_t \<Rightarrow> string \<Rightarrow> uint16_t" where
  "digits_value acc [] = acc"
| "digits_value acc (c # cs) =
     (if is_digit c
      then digits_value (acc * 10 + of_nat (of_char c - of_char (CHR ''0''))) cs
      else acc)"

definition atoi :: "string \<Rightarrow> uint16_t" where
  "atoi s = digits_value 0 s"

definition MSG_PROMPT :: string where
  "MSG_PROMPT = crlf @ ''Enter countdown time (MM:SS): ''"

definition MSG_TIME_SET :: string where
  "MSG_TIME_SET = crlf @ ''Time set! Press PB2+PB3 to start (long press to clear).'' @ crlf"

definition MSG_INVALID_TIME :: string where
  "MSG_INVALID_TIME = crlf @ ''Invalid time.'' @ crlf"

definition MSG_INVALID_FORMAT :: string where
  "MSG_INVALID_FORMAT = crlf @ ''Invalid format. Use MM:SS'' @ crlf"

definition MSG_ERASE :: string where
  "MSG_ERASE = [CHR 0x08, CHR '' '', CHR 0x08]"

text \<open>
  The branch \<^verbatim>\<open>uartCmd.type == UART_CMD_ENTER\<close> of the input loop. \<open>submitted_minutes\<close>
  and \<open>submitted_seconds\<close> are the two calls of \<^verbatim>\<open>atoi\<close>, on the buffer in which the colon
  at offset \<open>k\<close> has been overwritten with NUL.
\<close>

definition submitted_minutes :: "char list \<Rightarrow> nat \<Rightarrow> uint16_t" where
  "submitted_minutes buf k = atoi (c_str (buf[k := NUL]))"

definition submitted_seconds :: "char list \<Rightarrow> nat \<Rightarrow> uint16_t" where
  "submitted_seconds buf k = atoi (c_str (drop (Suc k) (buf[k := NUL])))"

definition store_time :: "mutexes_t \<Rightarrow> uint16_t \<Rightarrow> uint16_t \<Rightarrow> app_t \<Rightarrow> app_t" where
  "store_time m minutes seconds a =
     (let total_seconds = minutes * 60 + seconds;
          a1 = (if xCountdownMutex_ok m then a\<lparr>g_CountdownSeconds := total_seconds\<rparr> else a);
          a2 = set_SystemState m STATE_READY a1
      in SafeDisp2String m MSG_TIME_SET a2)"

definition handle_enter :: "mutexes_t \<Rightarrow> input_t \<times> app_t \<Rightarrow> input_t \<times> app_t" where
  "handle_enter m s =
     (case s of (inp, a) \<Rightarrow>
        if input_index inp > 0
        then (case strchr (input_buffer inp) (CHR '':'') of
                None \<Rightarrow> (inp, SafeDisp2String m MSG_INVALID_FORMAT a)
              | Some k \<Rightarrow>
                  (let inp1 = inp\<lparr>input_buffer := (input_buffer inp)[k := NUL]\<rparr>;
                       minutes = submitted_minutes (input_buffer inp) k;
                       seconds = submitted_seconds (input_buffer inp) k
                   in if seconds < 60 \<and> (minutes > 0 \<or> seconds > 0)
                      then (inp1\<lparr>got_valid_time := True\<rparr>, store_time m minutes seconds a)
                      else (inp1, SafeDisp2String m MSG_INVALID_TIME a)))
        else (inp, a))"

text \<open>One command taken from \<^verbatim>\<open>xUartRxQueue\<close> inside the input loop.\<close>

definition time_input_cmd ::
    "mutexes_t \<Rightarrow> UartCmd_t \<Rightarrow> input_t \<times> app_t \<Rightarrow> input_t \<times> app_t" where
  "time_input_cmd m uartCmd s =
     (case s of (inp, a) \<Rightarrow>
        if type uartCmd = UART_CMD_CHAR
        then (if is_digit (character uartCmd) \<or> character uartCmd = CHR '':''
              then (if input_index inp < 16 - 1
                    then
                      (inp\<lparr>input_buffer :=
                             (input_buffer inp)
                               [input_index inp := character uartCmd, Suc (input_index inp) := NUL],
                           input_index := Suc (input_index inp)\<rparr>,
                       XmitUART2 (character uartCmd) a)
                    else (inp, a))
              else (inp, a))
        else if type uartCmd = UART_CMD_BACKSPACE
        then (if input_index inp > 0
              then
                (inp\<lparr>input_index := input_index inp - 1,
                     input_buffer := (input_buffer inp)[input_index inp - 1 := NUL]\<rparr>,
                 SafeDisp2String m MSG_ERASE a)
              else (inp, a))
        else if type uartCmd = UART_CMD_ENTER
        then handle_enter m (inp, a)
        else (inp, a))"

text \<open>
  The loop \<^verbatim>\<open>while (!got_valid_time)\<close> over the commands that arrive; when they run out
  the task is still waiting, in the state reached. \<open>begin_time_input\<close> is the part of the
  task before the loop: the prompt, \<^verbatim>\<open>memset\<close> and the reset of the locals; the stale
  commands have been discarded before it, so the commands of the loop are the ones that
  arrive after the prompt. The source resets the buffer and the index there and nowhere
  else: the branches that print an error go back to the head of the loop. \<open>enter_time\<close>
  feeds the loop with the characters received by the interrupt.
\<close>

fun time_input_loop ::
    "mutexes_t \<Rightarrow> UartCmd_t list \<Rightarrow> input_t \<times> app_t \<Rightarrow> input_t \<times> app_t" where
  "time_input_loop m [] s = s"
| "time_input_loop m (uartCmd # rest) s =
     (if got_valid_time (fst s) then s
      else time_input_loop m rest (time_input_cmd m uartCmd s))"

definition begin_time_input :: "mutexes_t \<Rightarrow> app_t \<Rightarrow> input_t \<times> app_t" where
  "begin_time_input m a =
     (\<lparr>input_buffer = replicate 16 NUL, input_index = 0, got_valid_time = False\<rparr>,
      SafeDisp2String m MSG_PROMPT a)"

definition enter_time :: "mutexes_t \<Rightarrow> string \<Rightarrow> app_t \<Rightarrow> input_t \<times> app_t" where
  "enter_time m received a = time_input_loop m (map U2RXInterrupt received) (begin_time_input m a)"

text \<open>Concrete states for the examples: the buffer after \<open>s\<close> has been typed into the
  cleared array, and the shared data while a time is being entered.\<close>

definition typed :: "string \<Rightarrow> input_t" where
  "typed s =
     \<lparr>input_buffer = s @ replicate (16 - length s) NUL, input_index = length s,
      got_valid_time = False\<rparr>"

definition app_entering :: app_t where
  "app_entering =
     \<lparr>g_SystemState = STATE_TIME_INPUT, g_CountdownSeconds = 7, xButtonQueue = [],
      uart_tx = [], pwm = pwm_startup, led1_lat = False\<rparr>"

subsection \<open>The countdown task\<close>

text \<open>\<^verbatim>\<open>FormatTime\<close>: the five characters written before the terminating NUL.\<close>

definition FormatTime :: "uint16_t \<Rightarrow> string" where
  "FormatTime seconds =
     (let mins = unat seconds div 60;
          secs = unat seconds mod 60
      in [char_of (of_char (CHR ''0'') + mins div 10),
          char_of (of_char (CHR ''0'') + mins mod 10),
          CHR '':'',
          char_of (of_char (CHR ''0'') + secs div 10),
          char_of (of_char (CHR ''0'') + secs mod 10)])"

text \<open>
  The loop \<^verbatim>\<open>while (remaining > 0)\<close> of \<^verbatim>\<open>vCountdownTask\<close>; one iteration is one
  \<^verbatim>\<open>vTaskDelay(pdMS_TO_TICKS(1000))\<close>. The last argument is no variable of the source: it
  collects, after each iteration, the value of \<^verbatim>\<open>remaining\<close> and the phase
  \<^verbatim>\<open>g_SystemState\<close>, so that the run can be observed second by second. The loop reads
  neither \<^verbatim>\<open>g_SystemState\<close> nor \<^verbatim>\<open>xButtonQueue\<close>.
\<close>

definition countdown_second :: "mutexes_t \<Rightarrow> uint16_t \<Rightarrow> bool \<Rightarrow> app_t \<Rightarrow> app_t" where
  "countdown_second m remaining led1_on a =
     (let a1 = SafeDisp2String m (''LOOP: Inside countdown'' @ crlf) a;
          a2 = SafeDisp2String m ''Time: '' a1;
          a3 = SafeDisp2String m (FormatTime remaining) a2;
          a4 = SafeDisp2String m crlf a3;
          a5 = a4\<lparr>led1_lat := led1_on\<rparr>
      in a5\<lparr>pwm := PWM_SetOutputEnabled led1_on (pwm a5)\<rparr>)"

function countdown_loop ::
    "mutexes_t \<Rightarrow> uint16_t \<Rightarrow> bool \<Rightarrow> app_t \<Rightarrow> (uint16_t \<times> SystemState_t) list
      \<Rightarrow> (uint16_t \<times> SystemState_t) list \<times> bool \<times> app_t" where
  "countdown_loop m remaining led1_on a seen =
     (if remaining > 0
      then (let a1 = countdown_second m (remaining - 1) (\<not> led1_on) a
            in countdown_loop m (remaining - 1) (\<not> led1_on) a1
                 (seen @ [(remaining - 1, g_SystemState a1)]))
      else (seen, led1_on, a))"
  by pat_completeness auto
termination
  by (relation "measure (\<lambda>(m, remaining, led1_on, a, seen). unat remaining)")
    (simp_all add: unat_minus_one word_greater_zero_iff unat_gt_0)

text \<open>
  One pass of the body of \<^verbatim>\<open>for(;;)\<close> in \<^verbatim>\<open>vCountdownTask\<close>, from the moment
  \<^verbatim>\<open>xStartCountdownSem\<close> has been taken. \<^verbatim>\<open>led1_on\<close> is declared outside the loop and so
  is an argument and a result.
\<close>

definition countdown_announce :: "mutexes_t \<Rightarrow> uint16_t \<Rightarrow> app_t \<Rightarrow> app_t" where
  "countdown_announce m remaining a =
     (let a1 = SafeDisp2String m (crlf @ ''[COUNTDOWN STARTED]'' @ crlf) a;
          a2 = SafeDisp2String m (''TEST1: Simple string works'' @ crlf) a1;
          a3 = SafeDisp2String m (''TEST2: remaining is NOT zero'' @ crlf) a2;
          a4 = a3\<lparr>led1_lat := False\<rparr>;
          a5 = a4\<lparr>pwm := PWM_SetDutyCycle 50 (PWM_SetOutputEnabled True (PWM_Start (pwm a4)))\<rparr>;
          a6 = SafeDisp2String m (''TEST3: After LED init'' @ crlf) a5;
          a7 = SafeDisp2String m (crlf @ ''Time: '') a6;
          a8 = SafeDisp2String m (FormatTime remaining) a7;
          a9 = SafeDisp2String m crlf a8;
          a10 = SafeDisp2String m ''TEST8: Before loop, remaining='' a9
      in SafeDisp2String m (''>0, entering loop'' @ crlf) a10)"

definition countdown_complete :: "mutexes_t \<Rightarrow> app_t \<Rightarrow> app_t" where
  "countdown_complete m a =
     (let a1 = a\<lparr>led1_lat := False\<rparr>;
          a2 = a1\<lparr>pwm := PWM_Stop (pwm a1)\<rparr>;
          a3 = SafeDisp2String m (crlf @ [CHR 0x0A] @ ''COUNTDOWN COMPLETE!'' @ crlf @ [CHR 0x0A]) a2
      in set_SystemState m STATE_WAITING a3)"

definition vCountdownTask ::
    "mutexes_t \<Rightarrow> bool \<Rightarrow> app_t \<Rightarrow> (uint16_t \<times> SystemState_t) list \<times> bool \<times> app_t" where
  "vCountdownTask m led1_on a =
     (let remaining = (if xCountdownMutex_ok m then g_CountdownSeconds a else 0)
      in if remaining = 0
         then ([], led1_on,
               set_SystemState m STATE_WAITING
                 (SafeDisp2String m (''[ERROR: No time set]'' @ crlf) a))
         else (case countdown_loop m remaining led1_on (countdown_announce m remaining a) [] of
                 (seen, led1_on', a') \<Rightarrow> (seen, led1_on', countdown_complete m a')))"

text \<open>The shared data when the countdown task is released with \<open>n\<close> seconds stored and the
  button events \<open>q\<close> waiting in the queue.\<close>

definition app_counting :: "uint16_t \<Rightarrow> ButtonEvent_t list \<Rightarrow> app_t" where
  "app_counting n q =
     \<lparr>g_SystemState = STATE_COUNTDOWN, g_CountdownSeconds = n, xButtonQueue = q,
      uart_tx = [], pwm = pwm_startup, led1_lat = False\<rparr>"

section \<open>Evaluation on concrete states\<close>

text \<open>The comparison of the counter with \<^verbatim>\<open>DEBOUNCE_COUNT\<close> after the first differing sample.\<close>

lemma five_not_le_one: "\<not> (5 :: uint16_t) \<le> 1"
  by (simp add: word_le_nat_alt)

lemmas button_eval =
  init_button_def UpdateButtonState_def confirm_change_def Let_def DEBOUNCE_COUNT_def
  five_not_le_one

lemmas example_states =
  clicked_button_def held_button_def releasing_button_def all_clicks_pending_def
  single_clicks_pending_def combo_about_to_release_def both_held_def
  Buttons_Init_def init_button_def

lemmas buttons_eval =
  button_eval update_all_buttons_def combo_track_def combo_long_press_def
  combo_release_def cancel_individual_clicks_def Buttons_Update_def
  Buttons_SendPendingEvents_def Buttons_IsPB2AndPB3LongPress_def CheckLongPress_def
  xQueueSend_def BUTTON_QUEUE_SIZE_def LONG_PRESS_THRESHOLD_MS_def


text \<open>
  One iteration of the polling loop without the local bindings, and a run of identical
  iterations, for the evaluation of concrete runs.
\<close>

lemma vButtonTask_cycle_eval:
  "vButtonTask_cycle (r1, r2, r3) (b, q) =
     (fst (snd (Buttons_SendPendingEvents (Buttons_Update 10 r1 r2 r3 b) q)),
      snd (snd (Buttons_SendPendingEvents (Buttons_Update 10 r1 r2 r3 b) q)))"
  by (simp add: vButtonTask_cycle_def Let_def split: prod.splits)

lemma replicate_numeral_Cons: "replicate (numeral k) x = x # replicate (numeral k - 1) x"
  by (simp add: numeral_eq_Suc)

lemmas loop_eval = buttons_eval example_states vButtonTask_cycle_eval replicate_numeral_Cons

section \<open>Debounce counter\<close>

lemma debounce_counter_confirm_change:
  "debounce_counter (confirm_change s r) = 0"
  by (simp add: confirm_change_def Let_def)

lemma debounce_counter_UpdateButtonState:
  "debounce_counter (UpdateButtonState state raw_reading elapsed_ms) =
     (if raw_reading = current_state state then 0
      else if debounce_counter state + 1 \<ge> DEBOUNCE_COUNT then 0
      else debounce_counter state + 1)"
  by (simp add: UpdateButtonState_def Let_def debounce_counter_confirm_change)

text \<open>
  Claim C8. After every call of \<^verbatim>\<open>UpdateButtonState\<close>, whatever the state before and
  whatever the sample, \<^verbatim>\<open>debounce_counter\<close> is at most \<^verbatim>\<open>DEBOUNCE_COUNT\<close> = 5 (the
  counter is in fact below it), and a sample equal to the current debounced state leaves
  the counter at 0.
\<close>

theorem debounce_counter_bounded_and_reset:
  "debounce_counter (UpdateButtonState state raw_reading elapsed_ms) \<le> DEBOUNCE_COUNT
   \<and> unat (debounce_counter (UpdateButtonState state raw_reading elapsed_ms)) \<le> 5
   \<and> unat (debounce_counter (UpdateButtonState state raw_reading elapsed_ms)) < 5
   \<and> debounce_counter (UpdateButtonState state (current_state state) elapsed_ms) = 0"
proof -
  let ?c = "debounce_counter (UpdateButtonState state raw_reading elapsed_ms)"
  have lt: "?c < DEBOUNCE_COUNT"
    by (simp add: debounce_counter_UpdateButtonState DEBOUNCE_COUNT_def not_le)
  then have "unat ?c < 5"
    by (simp add: DEBOUNCE_COUNT_def word_less_nat_alt)
  moreover have "debounce_counter (UpdateButtonState state (current_state state) elapsed_ms) = 0"
    by (simp add: debounce_counter_UpdateButtonState)
  ultimately show ?thesis using lt by simp
qed

section \<open>Noise rejection\<close>

lemma current_state_UpdateButtonState:
  "current_state (UpdateButtonState state raw_reading elapsed_ms) =
     (if raw_reading \<noteq> current_state state \<and> debounce_counter state + 1 \<ge> DEBOUNCE_COUNT
      then raw_reading else current_state state)"
  by (simp add: UpdateButtonState_def confirm_change_def Let_def)

lemma longest_differing_run_ge: "k \<le> longest_differing_run d k raws"
proof (induction raws arbitrary: k)
  case Nil
  show ?case by simp
next
  case (Cons r raws)
  have "Suc k \<le> longest_differing_run d (Suc k) raws" by (rule Cons.IH)
  then show ?case by simp
qed

lemma counter_step:
  assumes "unat (c :: uint16_t) = k" "Suc k < 5"
  shows "\<not> (c + 1 \<ge> DEBOUNCE_COUNT)" "unat (c + 1) = Suc k"
proof -
  have "unat (c + 1) = Suc k"
    using assms by (simp add: unat_word_ariths)
  then show "unat (c + 1) = Suc k" .
  then show "\<not> (c + 1 \<ge> DEBOUNCE_COUNT)"
    using assms(2) by (simp add: DEBOUNCE_COUNT_def word_le_nat_alt)
qed

lemma run_keeps_current_state:
  "unat (debounce_counter state) = k \<Longrightarrow>
   longest_differing_run (current_state state) k raws < 5 \<Longrightarrow>
   current_state (UpdateButtonState_run state elapsed_ms raws) = current_state state"
proof (induction raws arbitrary: state k)
  case Nil
  show ?case by simp
next
  case (Cons r raws)
  let ?s = "UpdateButtonState state r elapsed_ms"
  show ?case
  proof (cases "r = current_state state")
    case True
    have c: "current_state ?s = current_state state"
      using True by (simp add: current_state_UpdateButtonState)
    have d: "unat (debounce_counter ?s) = 0"
      using True by (simp add: debounce_counter_UpdateButtonState)
    have "longest_differing_run (current_state state) 0 raws < 5"
      using Cons.prems(2) True by simp
    then have "current_state (UpdateButtonState_run ?s elapsed_ms raws) = current_state ?s"
      using Cons.IH [OF d] c by simp
    then show ?thesis using c by simp
  next
    case False
    have l: "longest_differing_run (current_state state) (Suc k) raws < 5"
      using Cons.prems(2) False by simp
    have "Suc k \<le> longest_differing_run (current_state state) (Suc k) raws"
      by (rule longest_differing_run_ge)
    then have k: "Suc k < 5" using l by simp
    note st = counter_step [OF Cons.prems(1) k]
    have c: "current_state ?s = current_state state"
      using st(1) by (simp add: current_state_UpdateButtonState)
    have d: "unat (debounce_counter ?s) = Suc k"
      using False st by (simp add: debounce_counter_UpdateButtonState)
    have "current_state (UpdateButtonState_run ?s elapsed_ms raws) = current_state ?s"
      using Cons.IH [OF d] l c by simp
    then show ?thesis using c by simp
  qed
qed

lemma longest_differing_run_take:
  "longest_differing_run d k (take n raws) \<le> longest_differing_run d k raws"
proof (induction raws arbitrary: k n)
  case Nil
  show ?case by simp
next
  case (Cons r raws)
  show ?case
  proof (cases n)
    case 0
    have "k \<le> longest_differing_run d k (r # raws)" by (rule longest_differing_run_ge)
    then show ?thesis using 0 by simp
  next
    case (Suc m)
    have a: "longest_differing_run d 0 (take m raws) \<le> longest_differing_run d 0 raws"
      by (rule Cons.IH)
    have b: "longest_differing_run d (Suc k) (take m raws) \<le> longest_differing_run d (Suc k) raws"
      by (rule Cons.IH)
    show ?thesis using Suc a b by auto
  qed
qed

text \<open>
  Claim C6. Start from a button whose \<^verbatim>\<open>debounce_counter\<close> is 0 (as after
  \<^verbatim>\<open>Buttons_Init\<close> or after any agreeing sample) and feed it any sequence of raw samples
  in which the samples that differ from the debounced state never come 5 in a row: after
  every number of polling ticks the debounced state \<^verbatim>\<open>current_state\<close> is the one the
  button started with. The elapsed time per tick plays no part.
\<close>

theorem short_glitch_keeps_debounced_state:
  assumes "debounce_counter state = 0"
    and "longest_differing_run (current_state state) 0 raws < 5"
  shows "current_state (UpdateButtonState_run state elapsed_ms (take n raws)) = current_state state"
proof -
  have "longest_differing_run (current_state state) 0 (take n raws)
          \<le> longest_differing_run (current_state state) 0 raws"
    by (rule longest_differing_run_take)
  then have l: "longest_differing_run (current_state state) 0 (take n raws) < 5"
    using assms(2) by simp
  have "unat (debounce_counter state) = 0" using assms(1) by simp
  then show ?thesis using l by (rule run_keeps_current_state)
qed

theorem short_glitch_keeps_debounced_state_witness:
  "debounce_counter (init_button False) = 0
   \<and> longest_differing_run (current_state (init_button False)) 0
        [True, True, True, True, False, True, True, False] < 5
   \<and> current_state (UpdateButtonState_run (init_button False) 10
        (take 8 [True, True, True, True, False, True, True, False])) = current_state (init_button False)"
proof -
  have h1: "debounce_counter (init_button False) = 0"
    by (simp add: init_button_def)
  have h2: "longest_differing_run (current_state (init_button False)) 0
        [True, True, True, True, False, True, True, False] < 5"
    by (simp add: init_button_def)
  from h1 h2 short_glitch_keeps_debounced_state [OF h1 h2, of 10 8] show ?thesis
    by blast
qed

text \<open>The bound is tight: the fifth differing sample in a row commits the change.\<close>

lemma five_differing_samples_commit:
  "UpdateButtonState_run (init_button False) 10 [True, True, True, True, True] =
     \<lparr>current_state = True, last_state = False, raw_state = True, debounce_counter = 0,
      press_duration = 10, click_pending = False, long_press_sent = False\<rparr>"
  by (simp add: button_eval)

section \<open>Click checks\<close>

text \<open>
  Claim C9. For each of \<^verbatim>\<open>Buttons_IsPB1Clicked\<close>, \<^verbatim>\<open>Buttons_IsPB2Clicked\<close>,
  \<^verbatim>\<open>Buttons_IsPB3Clicked\<close> and \<^verbatim>\<open>Buttons_IsPB2AndPB3Click\<close>: when the click is pending,
  the first call returns true and a second call made on the state the first one left
  (nothing in between) returns false. The model is sequential; that no other task runs
  between the read and the clear is outside it.
\<close>

theorem click_check_true_then_false:
  "(click_pending (pb1_state b) \<longrightarrow>
      fst (Buttons_IsPB1Clicked b) \<and> \<not> fst (Buttons_IsPB1Clicked (snd (Buttons_IsPB1Clicked b))))
   \<and> (click_pending (pb2_state b) \<longrightarrow>
      fst (Buttons_IsPB2Clicked b) \<and> \<not> fst (Buttons_IsPB2Clicked (snd (Buttons_IsPB2Clicked b))))
   \<and> (click_pending (pb3_state b) \<longrightarrow>
      fst (Buttons_IsPB3Clicked b) \<and> \<not> fst (Buttons_IsPB3Clicked (snd (Buttons_IsPB3Clicked b))))
   \<and> (pb2_pb3_combo_click_pending b \<longrightarrow>
      fst (Buttons_IsPB2AndPB3Click b)
      \<and> \<not> fst (Buttons_IsPB2AndPB3Click (snd (Buttons_IsPB2AndPB3Click b))))"
  by (simp add: Buttons_IsPB1Clicked_def Buttons_IsPB2Clicked_def Buttons_IsPB3Clicked_def
      Buttons_IsPB2AndPB3Click_def)

theorem click_check_true_then_false_witness:
  "click_pending (pb1_state all_clicks_pending)
   \<and> fst (Buttons_IsPB1Clicked all_clicks_pending)
   \<and> \<not> fst (Buttons_IsPB1Clicked (snd (Buttons_IsPB1Clicked all_clicks_pending)))
   \<and> click_pending (pb2_state all_clicks_pending)
   \<and> fst (Buttons_IsPB2Clicked all_clicks_pending)
   \<and> \<not> fst (Buttons_IsPB2Clicked (snd (Buttons_IsPB2Clicked all_clicks_pending)))
   \<and> click_pending (pb3_state all_clicks_pending)
   \<and> fst (Buttons_IsPB3Clicked all_clicks_pending)
   \<and> \<not> fst (Buttons_IsPB3Clicked (snd (Buttons_IsPB3Clicked all_clicks_pending)))
   \<and> pb2_pb3_combo_click_pending all_clicks_pending
   \<and> fst (Buttons_IsPB2AndPB3Click all_clicks_pending)
   \<and> \<not> fst (Buttons_IsPB2AndPB3Click (snd (Buttons_IsPB2AndPB3Click all_clicks_pending)))"
proof -
  have h: "click_pending (pb1_state all_clicks_pending)"
      "click_pending (pb2_state all_clicks_pending)"
      "click_pending (pb3_state all_clicks_pending)"
      "pb2_pb3_combo_click_pending all_clicks_pending"
    by (simp_all add: example_states)
  from h click_check_true_then_false [of all_clicks_pending] show ?thesis
    by blast
qed

text \<open>With no click pending the check returns false and leaves the state as it is.\<close>

lemma click_check_nothing_pending:
  "\<not> click_pending (pb1_state b) \<Longrightarrow> Buttons_IsPB1Clicked b = (False, b)"
  by (simp add: Buttons_IsPB1Clicked_def)

section \<open>Sending the pending events\<close>

lemma xQueueSend_eq:
  "xQueueSend q e = (length q < BUTTON_QUEUE_SIZE, if length q < BUTTON_QUEUE_SIZE then q @ [e] else q)"
  by (simp add: xQueueSend_def)

lemma send_nothing:
  "pending_by_priority b = [] \<Longrightarrow> Buttons_SendPendingEvents b q = (False, b, q)"
  by (auto simp add: pending_by_priority_def Buttons_SendPendingEvents_def
      Buttons_IsPB2AndPB3LongPress_def CheckLongPress_def combo_long_press_ready_def
      long_press_ready_def Let_def split: if_splits)

lemma send_head:
  "pending_by_priority b = e # es \<Longrightarrow>
     fst (Buttons_SendPendingEvents b q) = (length q < BUTTON_QUEUE_SIZE)
   \<and> snd (snd (Buttons_SendPendingEvents b q)) = (if length q < BUTTON_QUEUE_SIZE then q @ [e] else q)
   \<and> e \<notin> set (pending_by_priority (fst (snd (Buttons_SendPendingEvents b q))))"
  by (auto simp add: pending_by_priority_def Buttons_SendPendingEvents_def
      Buttons_IsPB2AndPB3LongPress_def CheckLongPress_def combo_long_press_ready_def
      long_press_ready_def Let_def xQueueSend_eq split: if_splits)

lemma send_state_independent_of_queue:
  "fst (snd (Buttons_SendPendingEvents b q)) = fst (snd (Buttons_SendPendingEvents b q'))"
  by (simp add: Buttons_SendPendingEvents_def
      Buttons_IsPB2AndPB3LongPress_def CheckLongPress_def Let_def xQueueSend_eq split: if_splits)

text \<open>
  Claim C3. One call of \<^verbatim>\<open>Buttons_SendPendingEvents\<close>, in any module state and with any
  queue content. With nothing ready, it returns false and changes nothing. Otherwise the
  event \<open>e\<close> that comes first in the order combo click, combo long press, PB1 click, PB3
  long press, PB3 click, PB2 click is the one handled: the queue receives \<open>e\<close> alone, at
  its end, when it holds fewer than \<^verbatim>\<open>BUTTON_QUEUE_SIZE\<close> events, and is left as it is
  when it is full; the returned flag tells which; in both cases \<open>e\<close> is no longer ready
  afterwards, and the module state that results does not depend on the queue at all, so a
  dropped event is not kept for a later call.
\<close>

theorem send_delivers_highest_priority_event:
  "(pending_by_priority b = [] \<longrightarrow> Buttons_SendPendingEvents b q = (False, b, q))
   \<and> (\<forall>e es. pending_by_priority b = e # es \<longrightarrow>
         fst (Buttons_SendPendingEvents b q) = (length q < BUTTON_QUEUE_SIZE)
       \<and> snd (snd (Buttons_SendPendingEvents b q)) =
           (if length q < BUTTON_QUEUE_SIZE then q @ [e] else q)
       \<and> e \<notin> set (pending_by_priority (fst (snd (Buttons_SendPendingEvents b q))))
       \<and> fst (snd (Buttons_SendPendingEvents b q)) = fst (snd (Buttons_SendPendingEvents b [])))"
  using send_nothing [of b q] send_head [of b _ _ q] send_state_independent_of_queue [of b q "[]"]
  by blast

lemma pending_single_clicks:
  "pending_by_priority single_clicks_pending =
     \<lparr>button = BUTTON_PB1, event = EVENT_CLICK\<rparr>
       # [\<lparr>button = BUTTON_PB3, event = EVENT_CLICK\<rparr>, \<lparr>button = BUTTON_PB2, event = EVENT_CLICK\<rparr>]"
  by (simp add: pending_by_priority_def combo_long_press_ready_def long_press_ready_def
      example_states)

lemma pending_all_clicks:
  "pending_by_priority all_clicks_pending =
     \<lparr>button = BUTTON_PB2_AND_PB3, event = EVENT_CLICK\<rparr>
       # [\<lparr>button = BUTTON_PB1, event = EVENT_CLICK\<rparr>,
          \<lparr>button = BUTTON_PB3, event = EVENT_CLICK\<rparr>, \<lparr>button = BUTTON_PB2, event = EVENT_CLICK\<rparr>]"
  by (simp add: pending_by_priority_def combo_long_press_ready_def long_press_ready_def
      example_states)

lemma pending_init: "pending_by_priority (Buttons_Init False False False) = []"
  by (simp add: pending_by_priority_def combo_long_press_ready_def long_press_ready_def
      example_states)

theorem send_delivers_highest_priority_event_witness:
  "pending_by_priority (Buttons_Init False False False) = []
   \<and> Buttons_SendPendingEvents (Buttons_Init False False False) [] =
        (False, Buttons_Init False False False, [])
   \<and> pending_by_priority single_clicks_pending =
        \<lparr>button = BUTTON_PB1, event = EVENT_CLICK\<rparr>
          # [\<lparr>button = BUTTON_PB3, event = EVENT_CLICK\<rparr>, \<lparr>button = BUTTON_PB2, event = EVENT_CLICK\<rparr>]
   \<and> fst (Buttons_SendPendingEvents single_clicks_pending [])
   \<and> snd (snd (Buttons_SendPendingEvents single_clicks_pending [])) =
        [\<lparr>button = BUTTON_PB1, event = EVENT_CLICK\<rparr>]
   \<and> \<not> fst (Buttons_SendPendingEvents all_clicks_pending
        (replicate 10 \<lparr>button = BUTTON_PB1, event = EVENT_CLICK\<rparr>))
   \<and> snd (snd (Buttons_SendPendingEvents all_clicks_pending
        (replicate 10 \<lparr>button = BUTTON_PB1, event = EVENT_CLICK\<rparr>))) =
        replicate 10 \<lparr>button = BUTTON_PB1, event = EVENT_CLICK\<rparr>
   \<and> \<lparr>button = BUTTON_PB2_AND_PB3, event = EVENT_CLICK\<rparr> \<notin> set (pending_by_priority
        (fst (snd (Buttons_SendPendingEvents all_clicks_pending
           (replicate 10 \<lparr>button = BUTTON_PB1, event = EVENT_CLICK\<rparr>)))))"
proof -
  let ?full = "replicate 10 \<lparr>button = BUTTON_PB1, event = EVENT_CLICK\<rparr>"
  have e: "length ([] :: ButtonEvent_t list) < BUTTON_QUEUE_SIZE"
    by (simp add: BUTTON_QUEUE_SIZE_def)
  have f: "\<not> length ?full < BUTTON_QUEUE_SIZE"
    by (simp add: BUTTON_QUEUE_SIZE_def)
  have a: "Buttons_SendPendingEvents (Buttons_Init False False False) [] =
        (False, Buttons_Init False False False, [])"
    using pending_init
      send_delivers_highest_priority_event [of "Buttons_Init False False False" "[]"]
    by blast
  have b: "fst (Buttons_SendPendingEvents single_clicks_pending [])
      \<and> snd (snd (Buttons_SendPendingEvents single_clicks_pending [])) =
        [\<lparr>button = BUTTON_PB1, event = EVENT_CLICK\<rparr>]"
    using pending_single_clicks e
      send_delivers_highest_priority_event [of single_clicks_pending "[]"]
    by simp
  have c: "\<not> fst (Buttons_SendPendingEvents all_clicks_pending ?full)
      \<and> snd (snd (Buttons_SendPendingEvents all_clicks_pending ?full)) = ?full
      \<and> \<lparr>button = BUTTON_PB2_AND_PB3, event = EVENT_CLICK\<rparr> \<notin> set (pending_by_priority
           (fst (snd (Buttons_SendPendingEvents all_clicks_pending ?full))))"
  proof -
    note t = send_delivers_highest_priority_event
               [of all_clicks_pending ?full, THEN conjunct2, rule_format, OF pending_all_clicks]
    show ?thesis
      using f t [THEN conjunct1] t [THEN conjunct2, THEN conjunct1]
        t [THEN conjunct2, THEN conjunct2, THEN conjunct1]
      by simp
  qed
  from pending_init pending_single_clicks a b c show ?thesis by blast
qed

section \<open>The combo window\<close>

lemma update_all_buttons_fields:
  "pb1_state (update_all_buttons e r1 r2 r3 b) = UpdateButtonState (pb1_state b) r1 e"
  "pb2_state (update_all_buttons e r1 r2 r3 b) = UpdateButtonState (pb2_state b) r2 e"
  "pb3_state (update_all_buttons e r1 r2 r3 b) = UpdateButtonState (pb3_state b) r3 e"
  "pb2_pb3_combo_click_pending (update_all_buttons e r1 r2 r3 b) = pb2_pb3_combo_click_pending b"
  "pb2_pb3_combo_long_press_sent (update_all_buttons e r1 r2 r3 b) = pb2_pb3_combo_long_press_sent b"
  "pb2_pb3_combo_duration (update_all_buttons e r1 r2 r3 b) = pb2_pb3_combo_duration b"
  "pb2_was_pressed_in_combo (update_all_buttons e r1 r2 r3 b) = pb2_was_pressed_in_combo b"
  "pb3_was_pressed_in_combo (update_all_buttons e r1 r2 r3 b) = pb3_was_pressed_in_combo b"
  by (simp_all add: update_all_buttons_def)

lemma combo_stages_current_state:
  "current_state (pb2_state (combo_release (combo_long_press (combo_track e u)))) = current_state (pb2_state u)"
  "current_state (pb3_state (combo_release (combo_long_press (combo_track e u)))) = current_state (pb3_state u)"
  by (simp_all add: combo_release_def combo_long_press_def combo_track_def
      cancel_individual_clicks_def Let_def)

lemma current_state_Buttons_Update:
  "current_state (pb2_state (Buttons_Update e r1 r2 r3 b)) =
     current_state (UpdateButtonState (pb2_state b) r2 e)"
  "current_state (pb3_state (Buttons_Update e r1 r2 r3 b)) =
     current_state (UpdateButtonState (pb3_state b) r3 e)"
  by (simp_all add: Buttons_Update_def combo_stages_current_state update_all_buttons_fields)

lemma combo_stages_both_released:
  "\<not> current_state (pb2_state u) \<Longrightarrow> \<not> current_state (pb3_state u) \<Longrightarrow>
   combo_release (combo_long_press (combo_track e u)) = combo_release u"
  by (simp add: combo_long_press_def combo_track_def Let_def)

lemma combo_release_both_released:
  assumes "\<not> current_state (pb2_state u)" "\<not> current_state (pb3_state u)"
  shows "pb2_pb3_combo_duration (combo_release u) = 0"
    "\<not> pb2_pb3_combo_long_press_sent (combo_release u)"
    "\<not> pb2_was_pressed_in_combo (combo_release u)"
    "\<not> pb3_was_pressed_in_combo (combo_release u)"
    "pb2_pb3_combo_click_pending (combo_release u) =
       (pb2_pb3_combo_click_pending u \<or> combo_click_condition u)"
    "combo_click_condition u \<Longrightarrow> \<not> click_pending (pb2_state (combo_release u))"
    "combo_click_condition u \<Longrightarrow> \<not> click_pending (pb3_state (combo_release u))"
  using assms
  by (auto simp add: combo_release_def combo_click_condition_def cancel_individual_clicks_def Let_def)

text \<open>
  Claim C4. Take any call of \<^verbatim>\<open>Buttons_Update\<close> after which PB2 and PB3 are both
  debounced-released. The window is reset whatever else holds: the accumulated duration is
  0 and the two was-pressed flags and the long-press flag are cleared. A combo click is
  pending afterwards exactly when one was pending before or the window satisfies
  \<open>combo_click_condition\<close> (both buttons seen pressed, duration strictly between 0 and
  1000 ms, no combo long press flagged); and in the latter case the individual clicks of
  PB2 and PB3, also the ones this very call has just raised on the release edges, are
  cleared.
\<close>

theorem combo_click_on_release:
  assumes "\<not> current_state (pb2_state (Buttons_Update elapsed_ms pb1_read pb2_read pb3_read b))"
    and "\<not> current_state (pb3_state (Buttons_Update elapsed_ms pb1_read pb2_read pb3_read b))"
  shows "pb2_pb3_combo_duration (Buttons_Update elapsed_ms pb1_read pb2_read pb3_read b) = 0
    \<and> \<not> pb2_was_pressed_in_combo (Buttons_Update elapsed_ms pb1_read pb2_read pb3_read b)
    \<and> \<not> pb3_was_pressed_in_combo (Buttons_Update elapsed_ms pb1_read pb2_read pb3_read b)
    \<and> \<not> pb2_pb3_combo_long_press_sent (Buttons_Update elapsed_ms pb1_read pb2_read pb3_read b)
    \<and> pb2_pb3_combo_click_pending (Buttons_Update elapsed_ms pb1_read pb2_read pb3_read b) =
         (pb2_pb3_combo_click_pending b \<or> combo_click_condition b)
    \<and> (combo_click_condition b \<longrightarrow>
          pb2_pb3_combo_click_pending (Buttons_Update elapsed_ms pb1_read pb2_read pb3_read b)
        \<and> \<not> click_pending (pb2_state (Buttons_Update elapsed_ms pb1_read pb2_read pb3_read b))
        \<and> \<not> click_pending (pb3_state (Buttons_Update elapsed_ms pb1_read pb2_read pb3_read b)))"
proof -
  let ?u = "update_all_buttons elapsed_ms pb1_read pb2_read pb3_read b"
  have r2: "\<not> current_state (pb2_state ?u)"
    using assms(1) by (simp add: current_state_Buttons_Update update_all_buttons_fields)
  have r3: "\<not> current_state (pb3_state ?u)"
    using assms(2) by (simp add: current_state_Buttons_Update update_all_buttons_fields)
  have eq: "Buttons_Update elapsed_ms pb1_read pb2_read pb3_read b = combo_release ?u"
    by (simp add: Buttons_Update_def combo_stages_both_released [OF r2 r3])
  have c: "combo_click_condition ?u = combo_click_condition b"
    by (simp add: combo_click_condition_def update_all_buttons_fields)
  have p: "pb2_pb3_combo_click_pending ?u = pb2_pb3_combo_click_pending b"
    by (simp add: update_all_buttons_fields)
  note f = combo_release_both_released [OF r2 r3]
  show ?thesis
    unfolding eq using f c p by simp
qed

lemma Buttons_Update_combo_about_to_release:
  "Buttons_Update 10 False False False combo_about_to_release =
     (Buttons_Init False False False)
       \<lparr>pb2_state := (init_button False)\<lparr>last_state := True\<rparr>,
        pb3_state := (init_button False)\<lparr>last_state := True\<rparr>,
        pb2_pb3_combo_click_pending := True\<rparr>"
  by (simp add: example_states buttons_eval)

lemma release_alone_is_a_click:
  "click_pending (UpdateButtonState (releasing_button 340) False 10)"
  by (simp add: example_states buttons_eval)

theorem combo_click_on_release_witness:
  "\<not> current_state (pb2_state (Buttons_Update 10 False False False combo_about_to_release))
   \<and> \<not> current_state (pb3_state (Buttons_Update 10 False False False combo_about_to_release))
   \<and> combo_click_condition combo_about_to_release
   \<and> pb2_pb3_combo_click_pending (Buttons_Update 10 False False False combo_about_to_release)
   \<and> \<not> click_pending (pb2_state (Buttons_Update 10 False False False combo_about_to_release))
   \<and> \<not> click_pending (pb3_state (Buttons_Update 10 False False False combo_about_to_release))
   \<and> pb2_pb3_combo_duration (Buttons_Update 10 False False False combo_about_to_release) = 0"
proof -
  have h2: "\<not> current_state (pb2_state (Buttons_Update 10 False False False combo_about_to_release))"
    by (simp add: Buttons_Update_combo_about_to_release Buttons_Init_def init_button_def)
  have h3: "\<not> current_state (pb3_state (Buttons_Update 10 False False False combo_about_to_release))"
    by (simp add: Buttons_Update_combo_about_to_release Buttons_Init_def init_button_def)
  have c: "combo_click_condition combo_about_to_release"
    by (simp add: combo_click_condition_def example_states LONG_PRESS_THRESHOLD_MS_def)
  from h2 h3 c combo_click_on_release [OF h2 h3] show ?thesis
    by blast
qed

text \<open>
  The scenario of the property, run through the polling loop from \<^verbatim>\<open>Buttons_Init\<close>: PB2
  goes down, PB3 follows 30 ms later, both are held and then released in the same tick.
  The queue receives one combo click and no individual click.
\<close>

lemma combo_click_scenario:
  "snd (vButtonTask_loop
     (replicate 3 (False, True, False) @ replicate 35 (False, True, True)
        @ replicate 5 (False, False, False))
     (Buttons_Init False False False, []))
   = [\<lparr>button = BUTTON_PB2_AND_PB3, event = EVENT_CLICK\<rparr>]"
  by (simp add: loop_eval)

section \<open>The combo long press\<close>

text \<open>
  \<^verbatim>\<open>Buttons_Update\<close> sets \<^verbatim>\<open>pb2_pb3_combo_long_press_sent\<close> itself as soon as the
  threshold is reached, so the test \<^verbatim>\<open>!pb2_pb3_combo_long_press_sent\<close> of
  \<^verbatim>\<open>Buttons_IsPB2AndPB3LongPress\<close> fails in every state that \<^verbatim>\<open>Buttons_Update\<close> returns.
\<close>

lemma combo_long_press_not_ready_after:
  "\<not> combo_long_press_ready (combo_long_press u)"
  by (auto simp add: combo_long_press_ready_def combo_long_press_def cancel_individual_clicks_def)

lemma combo_release_not_ready:
  "\<not> combo_long_press_ready u \<Longrightarrow> \<not> combo_long_press_ready (combo_release u)"
  by (auto simp add: combo_long_press_ready_def combo_release_def cancel_individual_clicks_def Let_def)

lemma not_ready_after_Buttons_Update:
  "\<not> combo_long_press_ready (Buttons_Update e r1 r2 r3 b)"
  by (simp add: Buttons_Update_def combo_release_not_ready combo_long_press_not_ready_after)

lemma IsPB2AndPB3LongPress_ready:
  "fst (Buttons_IsPB2AndPB3LongPress b) = combo_long_press_ready b"
  by (simp add: Buttons_IsPB2AndPB3LongPress_def combo_long_press_ready_def)

lemma send_not_ready:
  "\<not> combo_long_press_ready b \<Longrightarrow>
   snd (snd (Buttons_SendPendingEvents b q)) = q
   \<or> (\<exists>ev. ev \<noteq> combo_long_press_event \<and> snd (snd (Buttons_SendPendingEvents b q)) = q @ [ev])"
  by (auto simp add: Buttons_SendPendingEvents_def Buttons_IsPB2AndPB3LongPress_def
      combo_long_press_ready_def CheckLongPress_def xQueueSend_def Let_def
      combo_long_press_event_def)

lemma vButtonTask_cycle_queue:
  "snd (vButtonTask_cycle (r1, r2, r3) (b, q)) =
     snd (snd (Buttons_SendPendingEvents (Buttons_Update 10 r1 r2 r3 b) q))"
  by (simp add: vButtonTask_cycle_def Let_def split: prod.splits)

lemma vButtonTask_cycle_no_combo_long_press:
  assumes "combo_long_press_event \<notin> set (snd bq)"
  shows "combo_long_press_event \<notin> set (snd (vButtonTask_cycle pins bq))"
proof -
  obtain r1 r2 r3 where p: "pins = (r1, r2, r3)" by (cases pins) auto
  obtain b q where s: "bq = (b, q)" by (cases bq) auto
  from send_not_ready [OF not_ready_after_Buttons_Update, of 10 r1 r2 r3 b q] assms s
  show ?thesis
    unfolding p s vButtonTask_cycle_queue by auto
qed

lemma vButtonTask_loop_no_combo_long_press:
  "combo_long_press_event \<notin> set (snd bq) \<Longrightarrow>
   combo_long_press_event \<notin> set (snd (vButtonTask_loop pins bq))"
proof (induction pins arbitrary: bq)
  case Nil
  then show ?case by simp
next
  case (Cons p pins)
  have "combo_long_press_event \<notin> set (snd (vButtonTask_cycle p bq))"
    using Cons.prems by (rule vButtonTask_cycle_no_combo_long_press)
  then show ?case using Cons.IH by simp
qed

lemma combo_long_press_event_never_sent:
  "\<not> fst (Buttons_IsPB2AndPB3LongPress (Buttons_Update elapsed_ms pb1_read pb2_read pb3_read b))
   \<and> combo_long_press_event \<notin>
       set (snd (vButtonTask_loop pins (Buttons_Init pb1_init pb2_init pb3_init, [])))"
  using vButtonTask_loop_no_combo_long_press [of "(Buttons_Init pb1_init pb2_init pb3_init, [])" pins]
  by (simp add: IsPB2AndPB3LongPress_ready not_ready_after_Buttons_Update)

text \<open>What \<^verbatim>\<open>Buttons_Update\<close> does do at the threshold: it sets the flag and clears the
  individual clicks that are pending at that moment.\<close>

lemma combo_long_press_flagged:
  "current_state (pb2_state u) \<Longrightarrow> current_state (pb3_state u) \<Longrightarrow>
   pb2_pb3_combo_duration u \<ge> LONG_PRESS_THRESHOLD_MS \<Longrightarrow>
   \<not> pb2_pb3_combo_long_press_sent u \<Longrightarrow>
   pb2_pb3_combo_long_press_sent (combo_long_press u)
   \<and> \<not> click_pending (pb2_state (combo_long_press u))
   \<and> \<not> click_pending (pb3_state (combo_long_press u))"
  by (simp add: combo_long_press_def cancel_individual_clicks_def)

text \<open>
  Claim C5. The property asks for exactly one combo long press, no combo click and no
  individual click when PB2 and PB3 are held together for 1000 ms or more. The polling
  loop run from \<^verbatim>\<open>Buttons_Init\<close> with both buttons held for 150 ticks (1500 ms) and then
  released: after 104 ticks the flag \<^verbatim>\<open>pb2_pb3_combo_long_press_sent\<close> is set and the
  queue holds a long press of PB3 alone; after the release it holds that event and a click
  of PB2. No event of \<^verbatim>\<open>BUTTON_PB2_AND_PB3\<close> is sent at any time, and no combo click
  becomes pending.
\<close>

theorem combo_long_press_hold_and_release:
  "vButtonTask_loop (replicate 104 (False, True, True)) (Buttons_Init False False False, []) =
     ((both_held 1000)
        \<lparr>pb2_pb3_combo_long_press_sent := True,
         pb3_state := (held_button 1000)\<lparr>long_press_sent := True\<rparr>\<rparr>,
      [\<lparr>button = BUTTON_PB3, event = EVENT_LONG_PRESS\<rparr>])
   \<and> snd (vButtonTask_loop
          (replicate 150 (False, True, True) @ replicate 10 (False, False, False))
          (Buttons_Init False False False, []))
       = [\<lparr>button = BUTTON_PB3, event = EVENT_LONG_PRESS\<rparr>,
          \<lparr>button = BUTTON_PB2, event = EVENT_CLICK\<rparr>]
   \<and> \<not> pb2_pb3_combo_click_pending (fst (vButtonTask_loop
          (replicate 150 (False, True, True) @ replicate 10 (False, False, False))
          (Buttons_Init False False False, [])))"
  by (simp add: loop_eval)

section \<open>The PWM duty cycle\<close>

lemma sine_table_le_100: "list_all (\<lambda>v. v \<le> 100) sine_table"
  by (simp add: sine_table_def)

lemma sine_table_length: "length sine_table = 16"
  by (simp add: sine_table_def)

lemma table_index_in_range: "unat (ucast (drop_bit 12 (w :: uint16_t)) :: uint8_t) < 16"
proof -
  have d: "unat (drop_bit 12 w) = unat w div 2 ^ 12"
    by (simp only: unat_drop_bit_eq) (simp add: drop_bit_eq_div)
  have "unat w < 2 ^ 16"
    using unsigned_less [of w] by simp
  then have b: "unat (drop_bit 12 w) < 16"
    using d by (simp add: less_mult_imp_div_less)
  have "unat (ucast (drop_bit 12 w) :: uint8_t) = take_bit 8 (unat (drop_bit 12 w))"
    by (simp add: unsigned_ucast_eq)
  also have "\<dots> \<le> unat (drop_bit 12 w)"
    by (rule take_bit_nat_less_eq_self)
  finally show ?thesis
    using b by simp
qed

lemma sine_table_nth_le: "i < 16 \<Longrightarrow> sine_table ! i \<le> 100"
  using sine_table_le_100 by (simp add: list_all_length sine_table_length)

lemma duty_ok_apply: "duty_ok p \<Longrightarrow> pwm_apply x p = Some p' \<Longrightarrow> duty_ok p'"
proof (cases x)
  case (Op_UpdatePulse e per)
  assume "pwm_apply x p = Some p'"
  then have "\<exists>w. pwm_duty_cycle p' = sine_table ! unat (ucast (drop_bit 12 (w :: uint16_t)) :: uint8_t)"
    using Op_UpdatePulse by (auto simp add: PWM_UpdatePulse_def Let_def split: if_splits)
  then show "duty_ok p'"
    using sine_table_nth_le [OF table_index_in_range] by (auto simp add: duty_ok_def)
qed (auto simp add: duty_ok_def PWM_Init_def PWM_Start_def PWM_Stop_def PWM_SetDutyCycle_def
      PWM_SetOutputEnabled_def PWM_ResetPulse_def T2Interrupt_def Let_def sine_table_def)

lemma duty_ok_run: "duty_ok p \<Longrightarrow> pwm_run xs p = Some p' \<Longrightarrow> duty_ok p'"
proof (induction xs arbitrary: p)
  case Nil
  then show ?case by simp
next
  case (Cons x xs)
  then show ?case
    by (auto split: option.splits dest: duty_ok_apply)
qed

text \<open>
  Claim C10. \<^verbatim>\<open>pwm_duty_cycle\<close> is a percentage at all times: after any sequence of
  calls of the module's entry points and of the Timer2 interrupt, from the static
  initialisers or from any state whose duty cycle is in range, the duty cycle is at
  most 100 (it is unsigned, so at least 0). \<^verbatim>\<open>PWM_SetDutyCycle\<close> stores its argument
  clamped to 100; \<^verbatim>\<open>PWM_UpdatePulse\<close>, where it returns, and \<^verbatim>\<open>PWM_ResetPulse\<close> store
  an entry of \<^verbatim>\<open>sine_table\<close>, the index being below 16; the table has 16 entries, each
  at most 100.
\<close>

theorem pwm_duty_cycle_in_range:
  "(pwm_run ops pwm_startup = Some p \<longrightarrow> unat (pwm_duty_cycle p) \<le> 100)
   \<and> (duty_ok p0 \<and> pwm_run ops p0 = Some p \<longrightarrow> duty_ok p)
   \<and> pwm_duty_cycle (PWM_SetDutyCycle d p0) = (if d > 100 then 100 else d)
   \<and> unat (pwm_duty_cycle (PWM_SetDutyCycle d p0)) \<le> 100
   \<and> (PWM_UpdatePulse elapsed_ms period_ms p0 = Some p1 \<longrightarrow>
         pwm_duty_cycle p1 \<in> set sine_table \<and> unat (pwm_duty_cycle p1) \<le> 100)
   \<and> pwm_duty_cycle (PWM_ResetPulse p0) = hd sine_table
   \<and> length sine_table = 16
   \<and> list_all (\<lambda>v. unat v \<le> 100) sine_table"
proof -
  have s: "duty_ok pwm_startup"
    by (simp add: duty_ok_def pwm_startup_def)
  have a: "pwm_run ops pwm_startup = Some p \<longrightarrow> unat (pwm_duty_cycle p) \<le> 100"
    using duty_ok_run [OF s, of ops p] by (auto simp add: duty_ok_def word_le_nat_alt)
  have b: "duty_ok p0 \<and> pwm_run ops p0 = Some p \<longrightarrow> duty_ok p"
    using duty_ok_run [of p0 ops p] by blast
  have c: "pwm_duty_cycle (PWM_SetDutyCycle d p0) = (if d > 100 then 100 else d)"
    by (simp add: PWM_SetDutyCycle_def)
  have c': "unat (pwm_duty_cycle (PWM_SetDutyCycle d p0)) \<le> 100"
    using duty_ok_apply [of "p0\<lparr>pwm_duty_cycle := 0\<rparr>" "Op_SetDutyCycle d"]
    by (simp add: duty_ok_def word_le_nat_alt PWM_SetDutyCycle_def)
  have d: "PWM_UpdatePulse elapsed_ms period_ms p0 = Some p1 \<longrightarrow>
         pwm_duty_cycle p1 \<in> set sine_table \<and> unat (pwm_duty_cycle p1) \<le> 100"
  proof
    assume u: "PWM_UpdatePulse elapsed_ms period_ms p0 = Some p1"
    then obtain w :: uint16_t where
      w: "pwm_duty_cycle p1 = sine_table ! unat (ucast (drop_bit 12 w) :: uint8_t)"
      by (auto simp add: PWM_UpdatePulse_def Let_def split: if_splits)
    have "unat (ucast (drop_bit 12 w) :: uint8_t) < length sine_table"
      using table_index_in_range [of w] by (simp add: sine_table_length)
    then have m: "pwm_duty_cycle p1 \<in> set sine_table"
      unfolding w by (rule nth_mem)
    have "pwm_duty_cycle p1 \<le> 100"
      unfolding w by (rule sine_table_nth_le [OF table_index_in_range])
    then show "pwm_duty_cycle p1 \<in> set sine_table \<and> unat (pwm_duty_cycle p1) \<le> 100"
      using m by (simp add: word_le_nat_alt)
  qed
  have e: "pwm_duty_cycle (PWM_ResetPulse p0) = hd sine_table"
    by (simp add: PWM_ResetPulse_def sine_table_def)
  have f: "list_all (\<lambda>v. unat v \<le> 100) sine_table"
    by (simp add: sine_table_def)
  from a b c c' d e f sine_table_length show ?thesis by blast
qed

lemma PWM_UpdatePulse_quarter:
  "PWM_UpdatePulse 500 2000 (PWM_SetDutyCycle 200 pwm_startup) =
     Some (pwm_startup\<lparr>pulse_phase := 16384, pwm_duty_cycle := 59\<rparr>)"
  by (simp add: PWM_UpdatePulse_def PWM_SetDutyCycle_def pwm_startup_def sine_table_def Let_def)


theorem pwm_duty_cycle_in_range_witness:
  "pwm_run [Op_SetDutyCycle 200, Op_UpdatePulse 500 2000] pwm_startup =
     Some (pwm_startup\<lparr>pulse_phase := 16384, pwm_duty_cycle := 59\<rparr>)
   \<and> unat (pwm_duty_cycle (pwm_startup\<lparr>pulse_phase := 16384, pwm_duty_cycle := 59\<rparr>)) \<le> 100
   \<and> duty_ok pwm_startup
   \<and> duty_ok (pwm_startup\<lparr>pulse_phase := 16384, pwm_duty_cycle := 59\<rparr>)
   \<and> PWM_UpdatePulse 500 2000 (PWM_SetDutyCycle 200 pwm_startup) =
       Some (pwm_startup\<lparr>pulse_phase := 16384, pwm_duty_cycle := 59\<rparr>)
   \<and> pwm_duty_cycle (pwm_startup\<lparr>pulse_phase := 16384, pwm_duty_cycle := 59\<rparr>) \<in> set sine_table"
proof -
  let ?p = "pwm_startup\<lparr>pulse_phase := 16384, pwm_duty_cycle := 59\<rparr>"
  have r: "pwm_run [Op_SetDutyCycle 200, Op_UpdatePulse 500 2000] pwm_startup = Some ?p"
    by (simp add: PWM_UpdatePulse_quarter)
  have s: "duty_ok pwm_startup"
    by (simp add: duty_ok_def pwm_startup_def)
  from r s PWM_UpdatePulse_quarter
    pwm_duty_cycle_in_range
      [where ops = "[Op_SetDutyCycle 200, Op_UpdatePulse 500 2000]" and p = ?p
         and ?p0.0 = "PWM_SetDutyCycle 200 pwm_startup" and elapsed_ms = 500
         and period_ms = 2000 and ?p1.0 = ?p]
    pwm_duty_cycle_in_range
      [where ops = "[Op_SetDutyCycle 200, Op_UpdatePulse 500 2000]" and p = ?p
         and ?p0.0 = pwm_startup]
  show ?thesis by blast
qed

section \<open>The time input\<close>

lemmas app_eval =
  SafeDisp2String_def set_SystemState_def XmitUART2_def all_mutexes_free_def
  app_counting_def app_entering_def

lemma g_SystemState_SafeDisp2String [simp]:
  "g_SystemState (SafeDisp2String m str a) = g_SystemState a"
  by (simp add: SafeDisp2String_def)

lemma g_CountdownSeconds_SafeDisp2String [simp]:
  "g_CountdownSeconds (SafeDisp2String m str a) = g_CountdownSeconds a"
  by (simp add: SafeDisp2String_def)

lemma xButtonQueue_SafeDisp2String [simp]:
  "xButtonQueue (SafeDisp2String m str a) = xButtonQueue a"
  by (simp add: SafeDisp2String_def)

lemmas input_eval =
  enter_time_def begin_time_input_def time_input_cmd_def handle_enter_def store_time_def
  submitted_minutes_def submitted_seconds_def atoi_def strchr_def c_str_def
  is_digit_def NUL_def U2RXInterrupt_def typed_def Let_def app_eval replicate_numeral_Cons

text \<open>
  From the prompt, with the three mutexes free and from any shared state \<open>a\<close>: the
  characters \<^verbatim>\<open>0 5 : 3 0\<close> and a carriage return store 330 and set \<^verbatim>\<open>STATE_READY\<close>; the
  characters \<^verbatim>\<open>9 9\<close> and a carriage return print the format error and change nothing
  else.
\<close>

lemma submit_05_30:
  "enter_time all_mutexes_free (''05:30'' @ [CHR 0x0D]) a =
     (\<lparr>input_buffer = ''05'' @ [NUL] @ ''30'' @ replicate 11 NUL, input_index = 5,
        got_valid_time = True\<rparr>,
      a\<lparr>g_CountdownSeconds := 330, g_SystemState := STATE_READY,
        uart_tx := uart_tx a @ [MSG_PROMPT, ''0'', ''5'', '':'', ''3'', ''0'', MSG_TIME_SET]\<rparr>)"
  by (simp add: input_eval)

lemma submit_99:
  "enter_time all_mutexes_free (''99'' @ [CHR 0x0D]) a =
     (typed ''99'',
      a\<lparr>uart_tx := uart_tx a @ [MSG_PROMPT, ''9'', ''9'', MSG_INVALID_FORMAT]\<rparr>)"
  by (simp add: input_eval)

text \<open>
  At an Enter with a non-empty buffer, whatever the buffer holds: without a colon in the
  string the format error is printed; with a colon, when the seconds as the program reads
  them are 60 or more, or minutes and seconds are both 0, "Invalid time." is printed. In
  both cases the shared state changes by the message only, and neither the index nor the
  rest of the buffer is reset.
\<close>

lemma handle_enter_no_colon:
  "input_index inp > 0 \<Longrightarrow> strchr (input_buffer inp) (CHR '':'') = None \<Longrightarrow>
   handle_enter m (inp, a) = (inp, SafeDisp2String m MSG_INVALID_FORMAT a)"
  by (simp add: handle_enter_def)

lemma handle_enter_invalid:
  assumes "input_index inp > 0" "strchr (input_buffer inp) (CHR '':'') = Some k"
    and bad: "submitted_seconds (input_buffer inp) k \<ge> 60
       \<or> (submitted_minutes (input_buffer inp) k = 0 \<and> submitted_seconds (input_buffer inp) k = 0)"
  shows "handle_enter m (inp, a) =
     (inp\<lparr>input_buffer := (input_buffer inp)[k := NUL]\<rparr>, SafeDisp2String m MSG_INVALID_TIME a)"
  using assms by (auto simp add: handle_enter_def Let_def not_less)

lemma uart_tx_SafeDisp2String:
  "xUartMutex_ok m \<Longrightarrow> uart_tx (SafeDisp2String m str a) = uart_tx a @ [str]"
  by (simp add: SafeDisp2String_def)

text \<open>
  Claim C7. The property asks that \<^verbatim>\<open>0 5 : 3 0\<close> and Enter, received while the phase is
  EnteringTime, store 330, and that a submission whose seconds are 60 or more is refused.
  A refused submission leaves the phase in EnteringTime, but the source clears the buffer
  only before the loop, so what was typed before stays in it. From the prompt, with 7
  stored:
  \<^item> \<^verbatim>\<open>9 9\<close>, Enter (format error), then \<^verbatim>\<open>0 5 : 3 0\<close>, Enter: the buffer reads
    \<^verbatim>\<open>9905:30\<close>, and 9905 * 60 + 30 modulo 65536 = 4506 is stored with \<^verbatim>\<open>STATE_READY\<close>;
  \<^item> \<^verbatim>\<open>0 0 : 7 5\<close>, Enter ("Invalid time."), then \<^verbatim>\<open>0 5 : 3 0\<close>, Enter: the colon of the
    first submission has been overwritten with NUL, the string is \<^verbatim>\<open>00\<close>, and the second
    submission gets the format error; phase and stored time stay;
  \<^item> \<^verbatim>\<open>0 : 6 5 5 3 7\<close>, Enter: the seconds are cut to 16 bits, 65537 becomes 1, and the
    submission is accepted with 1 stored.
\<close>

theorem time_submission_after_rejection:
  "enter_time all_mutexes_free (''99'' @ [CHR 0x0D] @ ''05:30'' @ [CHR 0x0D]) app_entering =
     (\<lparr>input_buffer = ''9905'' @ [NUL] @ ''30'' @ replicate 9 NUL, input_index = 7,
        got_valid_time = True\<rparr>,
      app_entering\<lparr>g_CountdownSeconds := 4506, g_SystemState := STATE_READY,
        uart_tx := [MSG_PROMPT, ''9'', ''9'', MSG_INVALID_FORMAT,
                    ''0'', ''5'', '':'', ''3'', ''0'', MSG_TIME_SET]\<rparr>)
   \<and> enter_time all_mutexes_free (''00:75'' @ [CHR 0x0D] @ ''05:30'' @ [CHR 0x0D]) app_entering =
     (\<lparr>input_buffer = ''00'' @ [NUL] @ ''7505:30'' @ replicate 6 NUL, input_index = 10,
        got_valid_time = False\<rparr>,
      app_entering\<lparr>uart_tx := [MSG_PROMPT, ''0'', ''0'', '':'', ''7'', ''5'', MSG_INVALID_TIME,
                    ''0'', ''5'', '':'', ''3'', ''0'', MSG_INVALID_FORMAT]\<rparr>)
   \<and> g_SystemState app_entering = STATE_TIME_INPUT \<and> g_CountdownSeconds app_entering = 7
   \<and> enter_time all_mutexes_free (''0:65537'' @ [CHR 0x0D]) app_entering =
     (\<lparr>input_buffer = ''0'' @ [NUL] @ ''65537'' @ replicate 9 NUL, input_index = 7,
        got_valid_time = True\<rparr>,
      app_entering\<lparr>g_CountdownSeconds := 1, g_SystemState := STATE_READY,
        uart_tx := [MSG_PROMPT, ''0'', '':'', ''6'', ''5'', ''5'', ''3'', ''7'', MSG_TIME_SET]\<rparr>)"
  by (simp add: input_eval)

text \<open>
  The stored total is computed in 16 bits as well, and the source tests
  \<^verbatim>\<open>minutes > 0 || seconds > 0\<close>, not the total: 1092 minutes and 16 seconds are 65536
  seconds, accepted and stored as 0.
\<close>

lemma submit_1092_16:
  "enter_time all_mutexes_free (''1092:16'' @ [CHR 0x0D]) app_entering =
     (\<lparr>input_buffer = ''1092'' @ [NUL] @ ''16'' @ replicate 9 NUL, input_index = 7,
        got_valid_time = True\<rparr>,
      app_entering\<lparr>g_CountdownSeconds := 0, g_SystemState := STATE_READY,
        uart_tx := [MSG_PROMPT, ''1'', ''0'', ''9'', ''2'', '':'', ''1'', ''6'', MSG_TIME_SET]\<rparr>)"
  by (simp add: input_eval)

section \<open>The countdown\<close>

lemmas countdown_eval =
  vCountdownTask_def countdown_announce_def countdown_complete_def countdown_second_def
  Let_def app_eval

lemma countdown_second_keeps [simp]:
  "g_SystemState (countdown_second m r l a) = g_SystemState a"
  "xButtonQueue (countdown_second m r l a) = xButtonQueue a"
  "g_CountdownSeconds (countdown_second m r l a) = g_CountdownSeconds a"
  by (simp_all add: countdown_second_def Let_def)

lemma countdown_announce_keeps [simp]:
  "g_SystemState (countdown_announce m r a) = g_SystemState a"
  "xButtonQueue (countdown_announce m r a) = xButtonQueue a"
  "g_CountdownSeconds (countdown_announce m r a) = g_CountdownSeconds a"
  by (simp_all add: countdown_announce_def Let_def)

declare countdown_loop.simps [simp del]

lemma countdown_loop_keeps:
  "countdown_loop m r l a seen = (seen', l', a') \<Longrightarrow>
     g_SystemState a' = g_SystemState a \<and> xButtonQueue a' = xButtonQueue a
     \<and> g_CountdownSeconds a' = g_CountdownSeconds a
     \<and> (list_all (\<lambda>p. snd p = g_SystemState a) seen \<longrightarrow>
           list_all (\<lambda>p. snd p = g_SystemState a) seen')"
proof (induction m r l a seen rule: countdown_loop.induct)
  case (1 m remaining led1_on a seen)
  show ?case
  proof (cases "remaining > 0")
    case True
    let ?a1 = "countdown_second m (remaining - 1) (\<not> led1_on) a"
    have "countdown_loop m (remaining - 1) (\<not> led1_on) ?a1
            (seen @ [(remaining - 1, g_SystemState ?a1)]) = (seen', l', a')"
      using "1.prems" True by (simp add: countdown_loop.simps [of m remaining] Let_def)
    from "1.IH" [OF True refl this] show ?thesis by simp
  next
    case False
    then show ?thesis using "1.prems" by (simp add: countdown_loop.simps [of m remaining])
  qed
qed

lemma vCountdownTask_phases:
  "list_all (\<lambda>p. snd p = g_SystemState a) (fst (vCountdownTask m led1_on a))
   \<and> g_SystemState (snd (snd (vCountdownTask m led1_on a))) =
       (if xStateMutex_ok m then STATE_WAITING else g_SystemState a)
   \<and> xButtonQueue (snd (snd (vCountdownTask m led1_on a))) = xButtonQueue a"
proof (cases "(if xCountdownMutex_ok m then g_CountdownSeconds a else 0) = 0")
  case True
  then show ?thesis
    by (simp add: vCountdownTask_def Let_def set_SystemState_def)
next
  case False
  let ?r = "if xCountdownMutex_ok m then g_CountdownSeconds a else 0"
  obtain seen l' a' where
    c: "countdown_loop m ?r led1_on (countdown_announce m ?r a) [] = (seen, l', a')"
    by (cases "countdown_loop m ?r led1_on (countdown_announce m ?r a) []") auto
  from countdown_loop_keeps [OF c]
  have k: "g_SystemState a' = g_SystemState a" "xButtonQueue a' = xButtonQueue a"
      "list_all (\<lambda>p. snd p = g_SystemState a) seen"
    by simp_all
  have v: "vCountdownTask m led1_on a = (seen, l', countdown_complete m a')"
    using False c by (simp add: vCountdownTask_def Let_def)
  show ?thesis
    unfolding v using k
    by (simp add: countdown_complete_def Let_def set_SystemState_def)
qed

text \<open>
  The values of \<^verbatim>\<open>remaining\<close> after the successive seconds of a countdown from \<open>r\<close> are
  \<open>r - 1\<close>, \<open>r - 2\<close>, down to 0: one decrement per second.
\<close>

lemma upt_Suc_shift: "[0..<Suc n] = 0 # map Suc [0..<n]"
  by (simp add: upt_conv_Cons map_Suc_upt del: upt_Suc)

lemma countdown_loop_values:
  "map fst (fst (countdown_loop m r l a seen)) =
     map fst seen @ map (\<lambda>i. r - of_nat (Suc i)) [0..<unat r]"
proof (induction m r l a seen rule: countdown_loop.induct)
  case (1 m remaining led1_on a seen)
  show ?case
  proof (cases "remaining > 0")
    case True
    then have n: "remaining \<noteq> 0" by auto
    have u: "unat remaining = Suc (unat (remaining - 1))"
      using n by (simp add: unat_minus_one unat_gt_0)
    have "map (\<lambda>i. remaining - of_nat (Suc i)) [0..<unat remaining] =
          (remaining - 1) # map (\<lambda>i. remaining - 1 - of_nat (Suc i)) [0..<unat (remaining - 1)]"
      unfolding u upt_Suc_shift by (simp add: comp_def)
    then show ?thesis
      using "1.IH" [OF True refl] True
      by (simp add: countdown_loop.simps [of m remaining] Let_def)
  next
    case False
    then have "remaining = 0" by (simp add: word_greater_zero_iff)
    then show ?thesis by (simp add: countdown_loop.simps [of m 0])
  qed
qed

lemma countdown_from_3:
  "fst (vCountdownTask all_mutexes_free False (app_counting 3 q)) =
     [(2, STATE_COUNTDOWN), (1, STATE_COUNTDOWN), (0, STATE_COUNTDOWN)]"
  by (simp add: countdown_eval countdown_loop.simps)

text \<open>
  Claim C1. The property asks that the phase becomes Completed when \<^verbatim>\<open>remaining\<close>
  reaches 0 and Waiting five seconds later. The countdown task released in
  \<^verbatim>\<open>STATE_COUNTDOWN\<close> with 3 seconds stored: \<^verbatim>\<open>remaining\<close> is 2, 1, 0 after the three
  seconds, the phase being \<^verbatim>\<open>STATE_COUNTDOWN\<close> at each of them, and when the loop ends the
  phase is set to \<^verbatim>\<open>STATE_WAITING\<close> at once. \<^verbatim>\<open>STATE_COMPLETED\<close> is not assigned and no
  time passes between the last decrement and the return to Waiting.
\<close>

theorem countdown_ends_in_waiting:
  "fst (vCountdownTask all_mutexes_free False (app_counting 3 [])) =
     [(2, STATE_COUNTDOWN), (1, STATE_COUNTDOWN), (0, STATE_COUNTDOWN)]
   \<and> g_SystemState (snd (snd (vCountdownTask all_mutexes_free False (app_counting 3 [])))) =
       STATE_WAITING"
proof -
  have w: "xStateMutex_ok all_mutexes_free"
    by (simp add: all_mutexes_free_def)
  from w vCountdownTask_phases [of "app_counting 3 []" all_mutexes_free False]
  show ?thesis
    by (simp add: countdown_from_3)
qed

text \<open>
  Claim C2. The property asks that a click of PB3 toggles Counting and Paused and that a
  long press of PB3 leads to Waiting within one polling tick. The countdown task
  released with 3 seconds stored while a click, or a long press, of PB3 waits in
  \<^verbatim>\<open>xButtonQueue\<close>: the task counts 2, 1, 0 in \<^verbatim>\<open>STATE_COUNTDOWN\<close> as it does with an empty
  queue, the phase is \<^verbatim>\<open>STATE_WAITING\<close> only after the third second, and the event is
  still in the queue. \<^verbatim>\<open>STATE_PAUSED\<close> is never assigned.
\<close>

theorem countdown_ignores_pb3:
  "fst (vCountdownTask all_mutexes_free False
          (app_counting 3 [\<lparr>button = BUTTON_PB3, event = EVENT_CLICK\<rparr>])) =
     [(2, STATE_COUNTDOWN), (1, STATE_COUNTDOWN), (0, STATE_COUNTDOWN)]
   \<and> xButtonQueue (snd (snd (vCountdownTask all_mutexes_free False
          (app_counting 3 [\<lparr>button = BUTTON_PB3, event = EVENT_CLICK\<rparr>])))) =
       [\<lparr>button = BUTTON_PB3, event = EVENT_CLICK\<rparr>]
   \<and> fst (vCountdownTask all_mutexes_free False
          (app_counting 3 [\<lparr>button = BUTTON_PB3, event = EVENT_LONG_PRESS\<rparr>])) =
     [(2, STATE_COUNTDOWN), (1, STATE_COUNTDOWN), (0, STATE_COUNTDOWN)]
   \<and> xButtonQueue (snd (snd (vCountdownTask all_mutexes_free False
          (app_counting 3 [\<lparr>button = BUTTON_PB3, event = EVENT_LONG_PRESS\<rparr>])))) =
       [\<lparr>button = BUTTON_PB3, event = EVENT_LONG_PRESS\<rparr>]"
proof -
  have q: "xButtonQueue (app_counting 3 q) = q" for q
    by (simp add: app_counting_def)
  from q
    vCountdownTask_phases
      [of "app_counting 3 [\<lparr>button = BUTTON_PB3, event = EVENT_CLICK\<rparr>]" all_mutexes_free False]
    vCountdownTask_phases
      [of "app_counting 3 [\<lparr>button = BUTTON_PB3, event = EVENT_LONG_PRESS\<rparr>]"
          all_mutexes_free False]
  show ?thesis
    by (simp add: countdown_from_3)
qed

end
